theory Spec2Isabelle
  imports Main "HOL-Library.Word" "HOL-Library.Multiset"
begin

section \<open>The document model (src/unnamed/part_003)\<close>

text \<open>
  Go's \<open>int64\<close> is a 64-bit word; \<open>+\<close> wraps, and the comparisons of the source
  are signed, so they are written on \<open>sint\<close>.
\<close>

type_synonym int64 = "64 word"

record Metadatum =
  Attribute :: string
  Value :: string
  Unit :: string

record UserPermission =
  User :: string
  Permission :: string

text \<open>
  The field \<open>Id\<close> of the Go struct is called \<open>Id'\<close> here: \<open>Id\<close> is the identity
  relation of HOL.
\<close>

record ElasticsearchDocument =
  Id' :: string
  Path :: string
  Label :: string
  Creator :: string
  FileType :: string
  DateCreated :: int64
  DateModified :: int64
  FileSize :: int64
  Metadata :: "Metadatum list"
  UserPermissions :: "UserPermission list"

text \<open>
  \<open>metadataEqual\<close> and \<open>permsEqual\<close> copy both slices into \<open>[]interface{}\<close>, build a
  set from each (\<open>set.NewSetFromSlice\<close> of golang-set, whose elements are compared with
  Go's \<open>==\<close>, here structural equality of the structs) and compare the two sets with the
  library's \<open>Equal\<close>. The set built from a slice is the set of its elements.
\<close>

definition metadataEqual :: "Metadatum list \<Rightarrow> Metadatum list \<Rightarrow> bool" where
  "metadataEqual one two = (if \<not> (set one = set two) then False else True)"

definition permsEqual :: "UserPermission list \<Rightarrow> UserPermission list \<Rightarrow> bool" where
  "permsEqual one two = (if \<not> (set one = set two) then False else True)"

definition Equal :: "ElasticsearchDocument \<Rightarrow> ElasticsearchDocument \<Rightarrow> bool" where
  "Equal doc other =
    (if DateModified doc \<noteq> DateModified other then False
     else if FileSize doc \<noteq> FileSize other then False
     else if Path doc \<noteq> Path other then False
     else if Label doc \<noteq> Label other then False
     else if Id' doc \<noteq> Id' other then False
     else if Creator doc \<noteq> Creator other then False
     else if FileType doc \<noteq> FileType other then False
     else if DateCreated doc \<noteq> DateCreated other then False
     else if \<not> metadataEqual (Metadata doc) (Metadata other) then False
     else if \<not> permsEqual (UserPermissions doc) (UserPermissions other) then False
     else True)"

section \<open>Errors and the JSON decoder\<close>

text \<open>
  \<open>ErrTooManyResults\<close> is the package's own error value; \<open>Wrap\<close> is \<open>errors.Wrap\<close>
  of github.com/pkg/errors; \<open>External\<close> stands for an error produced outside this
  package (the database driver, the Elasticsearch client, encoding/json).
\<close>

datatype error =
  ErrTooManyResults
  | External string
  | Wrap error string

text \<open>
  \<open>json.Unmarshal\<close> into an \<open>ElasticsearchDocument\<close> belongs to Go's standard library.
  It is a parameter of every function that calls it: a decoder maps the text either to
  an error or to the decoded document.
\<close>

type_synonym unmarshal = "string \<Rightarrow> error + ElasticsearchDocument"

section \<open>Classification (reindex.go)\<close>

datatype DocumentClassification = NoAction | IndexDocument | UpdateDocument

text \<open>
  \<open>classify\<close> returns a pair (classification, error), as the Go function does; a Go map
  is a partial function, and the two-valued lookup \<open>_, ok := esDocs[id]\<close> is the case
  distinction on the lookup.
\<close>

definition classify ::
  "unmarshal \<Rightarrow> string \<Rightarrow> string \<Rightarrow> (string \<rightharpoonup> ElasticsearchDocument)
    \<Rightarrow> DocumentClassification \<times> error option" where
  "classify um ident jsonstr esDocs =
    (case esDocs ident of
       None \<Rightarrow> (IndexDocument, None)
     | Some indexed \<Rightarrow>
         (case um jsonstr of
            Inl err \<Rightarrow> (NoAction, Some err)
          | Inr doc \<Rightarrow>
              if \<not> Equal doc indexed then (UpdateDocument, None)
              else (NoAction, None)))"

section \<open>Logging and pass statistics (reindex.go)\<close>

text \<open>
  The logger is the list of entries written so far, oldest first. An entry keeps the
  level, the format string of the source and the arguments passed to it.
\<close>

datatype log_arg = D int64 | S string

datatype log_level = DebugLevel | InfoLevel | ErrorLevel

type_synonym log_entry = "log_level \<times> string \<times> log_arg list"

record rowMetadata =
  rows :: int64
  documents :: int64
  processed :: int64
  dataobjects :: int64
  dataobjectsAdded :: int64
  dataobjectsUpdated :: int64
  dataobjectsRemoved :: int64
  colls :: int64
  collsAdded :: int64
  collsUpdated :: int64
  collsRemoved :: int64

text \<open>The zero value of the struct, \<open>var rows rowMetadata\<close>.\<close>

definition zeroRows :: rowMetadata where
  "zeroRows = \<lparr>rows = 0, documents = 0, processed = 0, dataobjects = 0,
     dataobjectsAdded = 0, dataobjectsUpdated = 0, dataobjectsRemoved = 0, colls = 0,
     collsAdded = 0, collsUpdated = 0, collsRemoved = 0\<rparr>"

text \<open>
  \<open>logTime\<close> writes the summary line. Its last argument, the elapsed wall-clock time,
  is left out of the entry.
\<close>

definition logTime :: "log_entry list \<Rightarrow> rowMetadata \<Rightarrow> log_entry list" where
  "logTime prefixlog rs = prefixlog @
     [(InfoLevel,
       ''Processed %d entries (%d rows, %d documents, processed %d data objects (+%d,U%d,-%d), %d colls (+%d,U%d,-%d)) in %s'',
       [D (processed rs), D (rows rs), D (documents rs), D (dataobjects rs),
        D (dataobjectsAdded rs), D (dataobjectsUpdated rs), D (dataobjectsRemoved rs),
        D (colls rs), D (collsAdded rs), D (collsUpdated rs), D (collsRemoved rs)])]"

section \<open>The catalog side (reindex.go)\<close>

text \<open>
  The catalog transaction type \<open>ICATTx\<close> and the connection \<open>ICATConnection\<close> are
  declared outside src/. A transaction is taken as the table of answers the database
  gives: the row count or error of \<open>CreateTemporaryTable\<close> for a table name, and the
  row sequences of \<open>GetDataObjects\<close> and \<open>GetCollections\<close>, each row being what
  \<open>Scan\<close> returns for it (an error, or the pair of id and JSON text).
\<close>

type_synonym scanned_row = "error + (string \<times> string)"

record ICATTx =
  CreateTemporaryTable :: "string \<Rightarrow> error + int64"
  GetDataObjects :: "error + scanned_row list"
  GetCollections :: "error + scanned_row list"

record ICATConnection =
  BeginTx :: "error + ICATTx"

text \<open>
  \<open>maxInPrefix\<close> is a package-level value declared outside src/; it is the first
  parameter of the functions that read it, already converted as \<open>int64(maxInPrefix)\<close>.
\<close>

definition createBaseUuidsTable ::
  "int64 \<Rightarrow> log_entry list \<Rightarrow> string \<Rightarrow> ICATTx \<Rightarrow> log_entry list \<times> int64 \<times> error option" where
  "createBaseUuidsTable maxInPrefix lg prefix tx =
    (case CreateTemporaryTable tx ''base_object_uuids'' of
       Inl err \<Rightarrow> (lg, 0, Some err)
     | Inr r \<Rightarrow>
         if sint maxInPrefix < sint r then (lg, r, Some ErrTooManyResults)
         else (lg @ [(DebugLevel,
                 ''Got %d rows for prefix %s (note that this may include stale unused metadata)'',
                 [D r, S prefix])], r, None))"

definition createUuidsTable ::
  "int64 \<Rightarrow> log_entry list \<Rightarrow> string \<Rightarrow> ICATTx \<Rightarrow> log_entry list \<times> int64 \<times> error option" where
  "createUuidsTable maxInPrefix lg prefix tx =
    (case createBaseUuidsTable maxInPrefix lg prefix tx of
       (lg1, r, Some err) \<Rightarrow> (lg1, 0, Some err)
     | (lg1, r, None) \<Rightarrow>
         (case CreateTemporaryTable tx ''object_uuids'' of
            Inl err \<Rightarrow> (lg1, 0, Some err)
          | Inr n \<Rightarrow> (lg1, r, None)))"

definition createPermsTable :: "log_entry list \<Rightarrow> ICATTx \<Rightarrow> log_entry list \<times> error option" where
  "createPermsTable lg tx =
    (case CreateTemporaryTable tx ''object_perms'' of
       Inl err \<Rightarrow> (lg, Some err)
     | Inr r \<Rightarrow> (lg @ [(DebugLevel, ''Got %d rows for perms'', [D r])], None))"

definition createMetadataTable :: "log_entry list \<Rightarrow> ICATTx \<Rightarrow> log_entry list \<times> error option" where
  "createMetadataTable lg tx =
    (case CreateTemporaryTable tx ''object_metadata'' of
       Inl err \<Rightarrow> (lg, Some err)
     | Inr r \<Rightarrow> (lg @ [(DebugLevel, ''Got %d rows for metadata'', [D r])], None))"

section \<open>The index side (src/unnamed/part_002, reindex.go)\<close>

text \<open>
  A bulk request is either \<open>NewBulkIndexRequest().Index(i).Type(t).Id(id).Doc(json)\<close>
  or \<open>NewBulkDeleteRequest().Index(i).Type(t).Id(id)\<close>.
\<close>

datatype bulk_req =
  BulkIndexRequest string string string string
  | BulkDeleteRequest string string string

fun req_id :: "bulk_req \<Rightarrow> string" where
  "req_id (BulkIndexRequest i t ident doc) = ident"
| "req_id (BulkDeleteRequest i t ident) = ident"

text \<open>
  A hit of the search result (\<open>elastic.SearchHit\<close>). Its field \<open>Source\<close> is a pointer,
  \<open>*json.RawMessage\<close>: \<open>None\<close> is the nil pointer of a hit that carries no \<open>_source\<close>,
  \<open>Some\<close> the raw JSON text. A search result is taken with its \<open>hits\<close> object, whose
  total and hit list are the two fields of \<open>SearchResult\<close>.
\<close>

record SearchHit =
  hit_Id :: string
  hit_Type :: string
  hit_Source :: "string option"

record SearchResult =
  TotalHits :: int64
  Hits :: "SearchHit list"

text \<open>
  The Elasticsearch client (\<open>elastic.Client\<close>) is the table of answers the cluster
  gives: the result of the search \<open>getSearchResults\<close> issues on an index for a prefix
  (ids starting with the prefix in upper or lower case, types file and folder, sorted by
  id, at most \<open>maxInPrefix\<close> hits), and the outcome of the \<open>k\<close>-th bulk request of the
  pass for the batch it carries.
\<close>

record elastic_Client =
  Search :: "string \<Rightarrow> string \<Rightarrow> error + SearchResult"
  Bulk :: "nat \<Rightarrow> bulk_req list \<Rightarrow> error option"

text \<open>
  \<open>ESConnection\<close> of src/unnamed/part_002; its fields \<open>es\<close> and \<open>index\<close> are called
  \<open>client\<close> and \<open>index_name\<close>, since \<open>index\<close> is also a function of reindex.go.
\<close>

record ESConnection =
  client :: elastic_Client
  index_name :: string

text \<open>
  Modelled from the spec: the bulk accumulator \<open>esutils.BulkIndexer\<close>, whose code is
  not under src/. The spec (4.5): it accumulates operations up to a fixed batch size;
  \<open>flush\<close> sends all buffered operations to the index in one batch and clears the
  buffer, and can fail. The record keeps the batch size, the buffered requests and
  every flush attempt made so far with the batch it sent and its outcome. A failed
  flush leaves the buffer as it was.
\<close>

record BulkIndexer =
  bulk_client :: elastic_Client
  bulkSize :: int
  buffer :: "bulk_req list"
  attempts :: "(bulk_req list \<times> error option) list"

text \<open>Modelled from the spec: the constructor \<open>esutils.NewBulkIndexer\<close>, with an empty buffer.\<close>

definition esutils_NewBulkIndexer :: "elastic_Client \<Rightarrow> int \<Rightarrow> BulkIndexer" where
  "esutils_NewBulkIndexer c n =
     \<lparr>bulk_client = c, bulkSize = n, buffer = [], attempts = []\<rparr>"

text \<open>Modelled from the spec: \<open>canFlush\<close> of \<open>esutils.BulkIndexer\<close>, true when operations are buffered.\<close>

definition CanFlush :: "BulkIndexer \<Rightarrow> bool" where
  "CanFlush ix = (buffer ix \<noteq> [])"

text \<open>Modelled from the spec: \<open>flush\<close> of \<open>esutils.BulkIndexer\<close>, one bulk request carrying the buffer.\<close>

definition Flush :: "BulkIndexer \<Rightarrow> BulkIndexer \<times> error option" where
  "Flush ix =
    (case Bulk (bulk_client ix) (length (attempts ix)) (buffer ix) of
       Some err \<Rightarrow> (ix\<lparr>attempts := attempts ix @ [(buffer ix, Some err)]\<rparr>, Some err)
     | None \<Rightarrow> (ix\<lparr>attempts := attempts ix @ [(buffer ix, None)], buffer := []\<rparr>, None))"

text \<open>
  Modelled from the spec: \<open>add\<close> of \<open>esutils.BulkIndexer\<close>; once the threshold is
  reached it flushes as part of \<open>add\<close>.
\<close>

definition Add :: "BulkIndexer \<Rightarrow> bulk_req \<Rightarrow> BulkIndexer \<times> error option" where
  "Add ix r =
    (let ix1 = ix\<lparr>buffer := buffer ix @ [r]\<rparr>
     in if bulkSize ix1 \<le> int (length (buffer ix1)) then Flush ix1 else (ix1, None))"

text \<open>
  All requests handed to \<open>Add\<close> so far, in order: those of the successful flushes,
  then those still buffered.
\<close>

definition enqueued :: "BulkIndexer \<Rightarrow> bulk_req list" where
  "enqueued ix = concat (map fst (filter (\<lambda>a. snd a = None) (attempts ix))) @ buffer ix"

text \<open>\<open>NewBulkIndexer\<close> of src/unnamed/part_002.\<close>

definition NewBulkIndexer :: "ESConnection \<Rightarrow> int \<Rightarrow> BulkIndexer" where
  "NewBulkIndexer conn n = esutils_NewBulkIndexer (client conn) n"

text \<open>
  The loop over the hits of \<open>getSearchResults\<close>. \<open>hit.Source.MarshalJSON()\<close> reads
  through the pointer, so a hit without a source makes the loop panic (a nil pointer
  dereference): the result is \<open>None\<close> and the hits after it are not read. A hit whose
  source does not decode is skipped (\<open>continue\<close>), any other is stored in both maps
  under its id.
\<close>

fun collectHits ::
  "unmarshal \<Rightarrow> SearchHit list \<Rightarrow> (string \<rightharpoonup> ElasticsearchDocument) \<Rightarrow> (string \<rightharpoonup> string)
    \<Rightarrow> ((string \<rightharpoonup> ElasticsearchDocument) \<times> (string \<rightharpoonup> string)) option" where
  "collectHits um [] esDocs esDocTypes = Some (esDocs, esDocTypes)"
| "collectHits um (hit # hits) esDocs esDocTypes =
    (case hit_Source hit of
       None \<Rightarrow> None
     | Some b \<Rightarrow>
        (case um b of
           Inl err \<Rightarrow> collectHits um hits esDocs esDocTypes
         | Inr doc \<Rightarrow>
             collectHits um hits (esDocs(hit_Id hit \<mapsto> doc))
               (esDocTypes(hit_Id hit \<mapsto> hit_Type hit))))"

text \<open>
  A call either returns its results or panics; a panic carries the log written up to
  it, since nothing else the call has done is visible to its caller.
\<close>

datatype 'a outcome = Returns 'a | Panics "log_entry list"

text \<open>
  \<open>getSearchResults\<close> returns the count, the two maps and the error, or panics in the
  loop over the hits. Where the source returns nil maps, the model returns empty ones
  (a nil map reads as an empty map).
\<close>

definition getSearchResults ::
  "int64 \<Rightarrow> unmarshal \<Rightarrow> log_entry list \<Rightarrow> string \<Rightarrow> ESConnection
    \<Rightarrow> (log_entry list \<times> int64 \<times> (string \<rightharpoonup> ElasticsearchDocument) \<times> (string \<rightharpoonup> string)
        \<times> error option) outcome" where
  "getSearchResults maxInPrefix um lg prefix conn =
    (case Search (client conn) (index_name conn) prefix of
       Inl err \<Rightarrow> Returns (lg, 0, Map.empty, Map.empty, Some err)
     | Inr search \<Rightarrow>
         (let lg1 = lg @ [(DebugLevel, ''Got %d documents for prefix %s (ES)'',
                           [D (TotalHits search), S prefix])]
          in if sint maxInPrefix < sint (TotalHits search)
             then Returns (lg1, TotalHits search, Map.empty, Map.empty, Some ErrTooManyResults)
             else (case collectHits um (Hits search) Map.empty Map.empty of
                     None \<Rightarrow> Panics lg1
                   | Some (esDocs, esDocTypes) \<Rightarrow>
                       Returns (lg1, TotalHits search, esDocs, esDocTypes, None))))"

definition index ::
  "BulkIndexer \<Rightarrow> string \<Rightarrow> string \<Rightarrow> string \<Rightarrow> string \<Rightarrow> BulkIndexer \<times> error option" where
  "index ix idx ident t json = Add ix (BulkIndexRequest idx t ident json)"

section \<open>The processing phases (reindex.go)\<close>

text \<open>
  The processing functions mutate four objects through pointers and references: the
  logger, the statistics \<open>rows\<close>, the map \<open>seenEsDocs\<close> and the bulk indexer. The
  model passes them as one record and returns it updated, with the returned error.
\<close>

record pass_state =
  logger :: "log_entry list"
  stats :: rowMetadata
  seenEsDocs :: "string \<rightharpoonup> bool"
  indexer :: BulkIndexer

text \<open>
  A \<open>for\<close> loop whose body may return an error: the loop stops at the first error and
  returns it with the state reached; the remaining elements are not visited.
\<close>

fun for_each :: "('a \<Rightarrow> 's \<Rightarrow> 's \<times> error option) \<Rightarrow> 'a list \<Rightarrow> 's \<Rightarrow> 's \<times> error option" where
  "for_each body [] st = (st, None)"
| "for_each body (x # xs) st =
    (case body x st of
       (st1, Some err) \<Rightarrow> (st1, Some err)
     | (st1, None) \<Rightarrow> for_each body xs st1)"

text \<open>The body of the loop of \<open>processDataobjects\<close>, for one row of the result set.\<close>

definition dataobject_row ::
  "unmarshal \<Rightarrow> (string \<rightharpoonup> ElasticsearchDocument) \<Rightarrow> ESConnection \<Rightarrow> scanned_row
    \<Rightarrow> pass_state \<Rightarrow> pass_state \<times> error option" where
  "dataobject_row um esDocs conn row st =
    (case row of
       Inl err \<Rightarrow> (st, Some err)
     | Inr (ident, selectedJSON) \<Rightarrow>
        (let st1 = st\<lparr>seenEsDocs := (seenEsDocs st)(ident \<mapsto> True)\<rparr>
         in case classify um ident selectedJSON esDocs of
              (classification, Some err) \<Rightarrow> (st1, Some err)
            | (classification, None) \<Rightarrow>
               (let st2 =
                  (if classification = UpdateDocument then
                     st1\<lparr>logger := logger st1 @
                           [(DebugLevel, ''data-object %s, documents differ, indexing'', [S ident])],
                         stats := (stats st1)\<lparr>dataobjectsUpdated :=
                                    dataobjectsUpdated (stats st1) + 1\<rparr>\<rparr>
                   else if classification = IndexDocument then
                     st1\<lparr>logger := logger st1 @
                           [(DebugLevel, ''data-object %s not in ES, indexing'', [S ident])],
                         stats := (stats st1)\<lparr>dataobjectsAdded :=
                                    dataobjectsAdded (stats st1) + 1\<rparr>\<rparr>
                   else st1)
                in case (if classification = UpdateDocument \<or> classification = IndexDocument
                         then index (indexer st2) (index_name conn) ident ''file'' selectedJSON
                         else (indexer st2, None)) of
                     (ix, Some err) \<Rightarrow> (st2\<lparr>indexer := ix\<rparr>, Some err)
                   | (ix, None) \<Rightarrow>
                       (st2\<lparr>indexer := ix,
                            stats := (stats st2)\<lparr>processed := processed (stats st2) + 1,
                                       dataobjects := dataobjects (stats st2) + 1\<rparr>\<rparr>, None))))"

definition processDataobjects ::
  "unmarshal \<Rightarrow> (string \<rightharpoonup> ElasticsearchDocument) \<Rightarrow> ESConnection \<Rightarrow> ICATTx
    \<Rightarrow> pass_state \<Rightarrow> pass_state \<times> error option" where
  "processDataobjects um esDocs conn tx st =
    (case GetDataObjects tx of
       Inl err \<Rightarrow> (st, Some err)
     | Inr rs \<Rightarrow>
        (case for_each (dataobject_row um esDocs conn) rs st of
           (st1, Some err) \<Rightarrow> (st1, Some err)
         | (st1, None) \<Rightarrow>
            (st1\<lparr>logger := logger st1 @
                  [(DebugLevel, ''%d data-objects missing, %d data-objects to update'',
                    [D (dataobjectsAdded (stats st1)), D (dataobjectsUpdated (stats st1))])]\<rparr>,
             None)))"

text \<open>The body of the loop of \<open>processCollections\<close>, for one row of the result set.\<close>

definition collection_row ::
  "unmarshal \<Rightarrow> (string \<rightharpoonup> ElasticsearchDocument) \<Rightarrow> ESConnection \<Rightarrow> scanned_row
    \<Rightarrow> pass_state \<Rightarrow> pass_state \<times> error option" where
  "collection_row um esDocs conn row st =
    (case row of
       Inl err \<Rightarrow> (st, Some err)
     | Inr (ident, selectedJSON) \<Rightarrow>
        (let st1 = st\<lparr>seenEsDocs := (seenEsDocs st)(ident \<mapsto> True)\<rparr>
         in case classify um ident selectedJSON esDocs of
              (classification, Some err) \<Rightarrow> (st1, Some err)
            | (classification, None) \<Rightarrow>
               (let st2 =
                  (if classification = UpdateDocument then
                     st1\<lparr>logger := logger st1 @
                           [(DebugLevel, ''data-object %s, documents differ, indexing'', [S ident])],
                         stats := (stats st1)\<lparr>collsUpdated := collsUpdated (stats st1) + 1\<rparr>\<rparr>
                   else if classification = IndexDocument then
                     st1\<lparr>logger := logger st1 @
                           [(DebugLevel, ''data-object %s not in ES, indexing'', [S ident])],
                         stats := (stats st1)\<lparr>collsAdded := collsAdded (stats st1) + 1\<rparr>\<rparr>
                   else st1)
                in case (if classification = UpdateDocument \<or> classification = IndexDocument
                         then index (indexer st2) (index_name conn) ident ''folder'' selectedJSON
                         else (indexer st2, None)) of
                     (ix, Some err) \<Rightarrow> (st2\<lparr>indexer := ix\<rparr>, Some err)
                   | (ix, None) \<Rightarrow>
                       (st2\<lparr>indexer := ix,
                            stats := (stats st2)\<lparr>processed := processed (stats st2) + 1,
                                       colls := colls (stats st2) + 1\<rparr>\<rparr>, None))))"

definition processCollections ::
  "unmarshal \<Rightarrow> (string \<rightharpoonup> ElasticsearchDocument) \<Rightarrow> ESConnection \<Rightarrow> ICATTx
    \<Rightarrow> pass_state \<Rightarrow> pass_state \<times> error option" where
  "processCollections um esDocs conn tx st =
    (case GetCollections tx of
       Inl err \<Rightarrow> (st, Some err)
     | Inr rs \<Rightarrow>
        (case for_each (collection_row um esDocs conn) rs st of
           (st1, Some err) \<Rightarrow> (st1, Some err)
         | (st1, None) \<Rightarrow>
            (st1\<lparr>logger := logger st1 @
                  [(DebugLevel, ''%d collections missing, %d collections to update'',
                    [D (collsAdded (stats st1)), D (collsUpdated (stats st1))])]\<rparr>,
             None)))"

text \<open>
  Reading a \<open>map[string]bool\<close> at a key it does not hold gives \<open>false\<close>.
\<close>

definition seen :: "(string \<rightharpoonup> bool) \<Rightarrow> string \<Rightarrow> bool" where
  "seen m ident = (case m ident of None \<Rightarrow> False | Some b \<Rightarrow> b)"

text \<open>The delete request \<open>processDeletions\<close> builds for an id and a type.\<close>

definition delete_req :: "ESConnection \<Rightarrow> string \<Rightarrow> string \<Rightarrow> bulk_req" where
  "delete_req conn docType ident = BulkDeleteRequest (index_name conn) docType ident"

text \<open>The body of the loop of \<open>processDeletions\<close>, for one key of \<open>esDocs\<close>.\<close>

definition deletion_step ::
  "(string \<rightharpoonup> string) \<Rightarrow> ESConnection \<Rightarrow> string \<Rightarrow> pass_state \<Rightarrow> pass_state \<times> error option" where
  "deletion_step esDocTypes conn ident st =
    (if \<not> seen (seenEsDocs st) ident then
       (case (case esDocTypes ident of
                None \<Rightarrow>
                  (''file'',
                   st\<lparr>logger := logger st @
                        [(ErrorLevel,
                          ''Could not find type for document %s, making rash assumptions'',
                          [S ident])]\<rparr>)
              | Some t \<Rightarrow> (t, st)) of
          (docType, st1) \<Rightarrow>
            (let st2 =
               (if docType = ''file'' then
                  st1\<lparr>logger := logger st1 @
                        [(DebugLevel, ''data-object %s not seen in ICAT, deleting'', [S ident])],
                      stats := (stats st1)\<lparr>dataobjectsRemoved :=
                                 dataobjectsRemoved (stats st1) + 1\<rparr>\<rparr>
                else if docType = ''folder'' then
                  st1\<lparr>logger := logger st1 @
                        [(DebugLevel, ''collection %s not seen in ICAT, deleting'', [S ident])],
                      stats := (stats st1)\<lparr>collsRemoved := collsRemoved (stats st1) + 1\<rparr>\<rparr>
                else st1)
             in case Add (indexer st2) (delete_req conn docType ident) of
                  (ix, Some err) \<Rightarrow>
                    (st2\<lparr>indexer := ix\<rparr>, Some (Wrap err ''Got error adding delete to indexer''))
                | (ix, None) \<Rightarrow> (st2\<lparr>indexer := ix\<rparr>, None)))
     else (st, None))"

text \<open>
  \<open>for id := range esDocs\<close> visits the keys of a Go map in an order the runtime
  chooses. The order is the parameter \<open>range_keys\<close>; what Go promises of it is that it
  lists every key of the map once.
\<close>

definition range_of :: "('k \<rightharpoonup> 'v) \<Rightarrow> 'k list \<Rightarrow> bool" where
  "range_of m ks = (distinct ks \<and> set ks = dom m)"

definition processDeletions ::
  "((string \<rightharpoonup> ElasticsearchDocument) \<Rightarrow> string list) \<Rightarrow> (string \<rightharpoonup> ElasticsearchDocument)
    \<Rightarrow> (string \<rightharpoonup> string) \<Rightarrow> ESConnection \<Rightarrow> pass_state \<Rightarrow> pass_state \<times> error option" where
  "processDeletions range_keys esDocs esDocTypes conn st =
    (case for_each (deletion_step esDocTypes conn) (range_keys esDocs) st of
       (st1, Some err) \<Rightarrow> (st1, Some err)
     | (st1, None) \<Rightarrow>
        (st1\<lparr>logger := logger st1 @
              [(DebugLevel, ''%d data-objects to delete, %d collections to delete'',
                [D (dataobjectsRemoved (stats st1)), D (collsRemoved (stats st1))])]\<rparr>,
         None))"

section \<open>The pass (reindex.go)\<close>

text \<open>
  The forced flush under FINISH UP: \<open>if indexer.CanFlush() { err = indexer.Flush() ... }\<close>.
\<close>

definition finishUp :: "pass_state \<Rightarrow> pass_state \<times> error option" where
  "finishUp st =
    (if CanFlush (indexer st) then
       (case Flush (indexer st) of
          (ix, Some err) \<Rightarrow> (st\<lparr>indexer := ix\<rparr>, Some (Wrap err ''Got error flushing bulk indexer''))
        | (ix, None) \<Rightarrow> (st\<lparr>indexer := ix\<rparr>, None))
     else (st, None))"

text \<open>
  The part of \<open>ReindexPrefix\<close> that runs once the indexer exists, from PROCESS to the
  final \<open>return nil\<close>: every one of its returns runs the deferred \<open>indexer.Flush()\<close>
  afterwards.
\<close>

definition processPhases ::
  "unmarshal \<Rightarrow> ((string \<rightharpoonup> ElasticsearchDocument) \<Rightarrow> string list)
    \<Rightarrow> (string \<rightharpoonup> ElasticsearchDocument) \<Rightarrow> (string \<rightharpoonup> string) \<Rightarrow> ESConnection \<Rightarrow> ICATTx
    \<Rightarrow> pass_state \<Rightarrow> pass_state \<times> error option" where
  "processPhases um range_keys esDocs esDocTypes conn tx st =
    (case processDataobjects um esDocs conn tx st of
       (st1, Some err) \<Rightarrow> (st1, Some err)
     | (st1, None) \<Rightarrow>
        (case processCollections um esDocs conn tx st1 of
           (st2, Some err) \<Rightarrow> (st2, Some err)
         | (st2, None) \<Rightarrow>
            (case processDeletions range_keys esDocs esDocTypes conn st2 of
               (st3, Some err) \<Rightarrow> (st3, Some err)
             | (st3, None) \<Rightarrow> finishUp st3)))"

text \<open>
  What a pass leaves behind: the statistics and the log at the end (after the deferred
  \<open>logTime\<close>), the bulk indexer if one was created (after the deferred flush), and the
  error \<open>ReindexPrefix\<close> returns. A pass that panics returns nothing: \<open>panicked\<close> is
  true and \<open>returned\<close> is \<open>None\<close>; its deferred calls have run all the same. The
  deferred \<open>tx.tx.Rollback()\<close> changes nothing the model tracks.
\<close>

record pass_result =
  final_rows :: rowMetadata
  final_log :: "log_entry list"
  final_indexer :: "BulkIndexer option"
  returned :: "error option"
  panicked :: bool

definition exit_pass ::
  "log_entry list \<Rightarrow> rowMetadata \<Rightarrow> BulkIndexer option \<Rightarrow> error option \<Rightarrow> pass_result" where
  "exit_pass lg rs ix e =
     \<lparr>final_rows = rs, final_log = logTime lg rs, final_indexer = ix, returned = e,
      panicked = False\<rparr>"

text \<open>
  The exit of a pass through a panic raised before the indexer exists: the deferred
  \<open>logTime\<close> still writes the summary line.
\<close>

definition panic_pass :: "log_entry list \<Rightarrow> rowMetadata \<Rightarrow> pass_result" where
  "panic_pass lg rs =
     \<lparr>final_rows = rs, final_log = logTime lg rs, final_indexer = None, returned = None,
      panicked = True\<rparr>"

definition ReindexPrefix ::
  "int64 \<Rightarrow> unmarshal \<Rightarrow> ((string \<rightharpoonup> ElasticsearchDocument) \<Rightarrow> string list)
    \<Rightarrow> ICATConnection \<Rightarrow> ESConnection \<Rightarrow> string \<Rightarrow> pass_result" where
  "ReindexPrefix maxInPrefix um range_keys db conn prefix =
    (let lg0 = [(DebugLevel, ''Indexing prefix %s'', [S prefix])]
     in case BeginTx db of
          Inl err \<Rightarrow> exit_pass lg0 zeroRows None (Some err)
        | Inr tx \<Rightarrow>
           (case createUuidsTable maxInPrefix lg0 prefix tx of
              (lg1, r, e1) \<Rightarrow>
               (let rows1 = zeroRows\<lparr>rows := r\<rparr>
                in case e1 of
                     Some err \<Rightarrow> exit_pass lg1 rows1 None (Some err)
                   | None \<Rightarrow>
                      (case getSearchResults maxInPrefix um lg1 prefix conn of
                         Panics lg2 \<Rightarrow> panic_pass lg2 rows1
                       | Returns (lg2, docs, esDocs, esDocTypes, e2) \<Rightarrow>
                          (let rows2 = rows1\<lparr>documents := docs\<rparr>
                           in case e2 of
                                Some err \<Rightarrow> exit_pass lg2 rows2 None (Some err)
                              | None \<Rightarrow>
                                 (case createPermsTable lg2 tx of
                                    (lg3, Some err) \<Rightarrow> exit_pass lg3 rows2 None (Some err)
                                  | (lg3, None) \<Rightarrow>
                                     (case createMetadataTable lg3 tx of
                                        (lg4, Some err) \<Rightarrow> exit_pass lg4 rows2 None (Some err)
                                      | (lg4, None) \<Rightarrow>
                                         (case processPhases um range_keys esDocs esDocTypes conn tx
                                                 \<lparr>logger = lg4, stats = rows2,
                                                  seenEsDocs = Map.empty,
                                                  indexer = NewBulkIndexer conn 1000\<rparr> of
                                            (st, e) \<Rightarrow>
                                             exit_pass (logger st) (stats st)
                                               (Some (fst (Flush (indexer st)))) e))))))))"

section \<open>Notions used to state the properties\<close>

text \<open>
  The type \<open>processDeletions\<close> tags a delete with: the recorded type of the id, or
  \<open>file\<close> when none is recorded. \<open>anomaly\<close> is the entry it logs in that case, and
  \<open>errors_logged\<close> picks the entries of level Error out of a log.
\<close>

definition docType_of :: "(string \<rightharpoonup> string) \<Rightarrow> string \<Rightarrow> string" where
  "docType_of esDocTypes ident = (case esDocTypes ident of None \<Rightarrow> ''file'' | Some t \<Rightarrow> t)"

definition anomaly :: "string \<Rightarrow> log_entry" where
  "anomaly ident =
     (ErrorLevel, ''Could not find type for document %s, making rash assumptions'', [S ident])"

definition errors_logged :: "log_entry list \<Rightarrow> log_entry list" where
  "errors_logged lg = filter (\<lambda>e. fst e = ErrorLevel) lg"

text \<open>
  What the loop of \<open>processDeletions\<close> has done to the state after visiting the keys
  \<open>ks\<close>: the deletes enqueued, the anomalies logged and the two counters of removals.
\<close>

definition deletions_done ::
  "(string \<rightharpoonup> string) \<Rightarrow> ESConnection \<Rightarrow> string list \<Rightarrow> pass_state \<Rightarrow> pass_state \<Rightarrow> bool" where
  "deletions_done T conn ks st st' =
    (seenEsDocs st' = seenEsDocs st \<and>
     enqueued (indexer st') = enqueued (indexer st) @
       map (\<lambda>i. delete_req conn (docType_of T i) i)
         (filter (\<lambda>i. \<not> seen (seenEsDocs st) i) ks) \<and>
     errors_logged (logger st') = errors_logged (logger st) @
       map anomaly (filter (\<lambda>i. \<not> seen (seenEsDocs st) i \<and> T i = None) ks) \<and>
     dataobjectsRemoved (stats st') = dataobjectsRemoved (stats st) +
       of_nat (length (filter (\<lambda>i. \<not> seen (seenEsDocs st) i \<and> docType_of T i = ''file'') ks)) \<and>
     collsRemoved (stats st') = collsRemoved (stats st) +
       of_nat (length (filter (\<lambda>i. \<not> seen (seenEsDocs st) i \<and> docType_of T i = ''folder'') ks)))"

text \<open>
  A hit is undecodable when it has a source and the decoder returns an error for it.
\<close>

definition undecodable :: "unmarshal \<Rightarrow> SearchHit \<Rightarrow> bool" where
  "undecodable um hit =
     (case hit_Source hit of
        None \<Rightarrow> False
      | Some b \<Rightarrow> (case um b of Inl err \<Rightarrow> True | Inr doc \<Rightarrow> False))"

text \<open>
  The state in which \<open>ReindexPrefix\<close> reaches PROCESS: the transaction, the two maps of
  the snapshot and the state the processing phases start from, with the indexer just
  created. It is \<open>None\<close> when the pass returns or panics before that point.
\<close>

definition prerequisites ::
  "int64 \<Rightarrow> unmarshal \<Rightarrow> ICATConnection \<Rightarrow> ESConnection \<Rightarrow> string
    \<Rightarrow> (ICATTx \<times> (string \<rightharpoonup> ElasticsearchDocument) \<times> (string \<rightharpoonup> string) \<times> pass_state) option" where
  "prerequisites maxInPrefix um db conn prefix =
    (case BeginTx db of
       Inl err \<Rightarrow> None
     | Inr tx \<Rightarrow>
        (case createUuidsTable maxInPrefix [(DebugLevel, ''Indexing prefix %s'', [S prefix])]
                prefix tx of
           (lg1, r, Some err) \<Rightarrow> None
         | (lg1, r, None) \<Rightarrow>
            (case getSearchResults maxInPrefix um lg1 prefix conn of
               Panics lg2 \<Rightarrow> None
             | Returns (lg2, docs, esDocs, esDocTypes, Some err) \<Rightarrow> None
             | Returns (lg2, docs, esDocs, esDocTypes, None) \<Rightarrow>
                (case createPermsTable lg2 tx of
                   (lg3, Some err) \<Rightarrow> None
                 | (lg3, None) \<Rightarrow>
                    (case createMetadataTable lg3 tx of
                       (lg4, Some err) \<Rightarrow> None
                     | (lg4, None) \<Rightarrow>
                        Some (tx, esDocs, esDocTypes,
                              \<lparr>logger = lg4, stats = zeroRows\<lparr>rows := r, documents := docs\<rparr>,
                               seenEsDocs = Map.empty,
                               indexer = NewBulkIndexer conn 1000\<rparr>))))))"

section \<open>Example inputs\<close>

text \<open>Concrete values on which the theorems below are instantiated.\<close>

definition bad_json :: error where "bad_json = External ''invalid character''"

definition md1 :: Metadatum where "md1 = \<lparr>Attribute = ''k'', Value = ''v'', Unit = ''''\<rparr>"
definition md2 :: Metadatum where "md2 = \<lparr>Attribute = ''k2'', Value = ''w'', Unit = ''m''\<rparr>"

definition doc_a :: ElasticsearchDocument where
  "doc_a = \<lparr>Id' = ''u2'', Path = ''/zone/home/a'', Label = ''a'', Creator = ''ann#zone'',
     FileType = ''generic'', DateCreated = 50, DateModified = 100, FileSize = 7,
     Metadata = [md1, md2],
     UserPermissions = [\<lparr>User = ''ann#zone'', Permission = ''own''\<rparr>]\<rparr>"

definition example_unmarshal :: unmarshal where
  "example_unmarshal s =
     (if s = ''A'' then Inr doc_a
      else if s = ''B'' then Inr (doc_a\<lparr>DateModified := 90\<rparr>)
      else if s = ''C'' then Inr (doc_a\<lparr>Metadata := [md2, md1, md1]\<rparr>)
      else Inl bad_json)"

definition example_client :: elastic_Client where
  "example_client =
     \<lparr>Search = (\<lambda>idx prefix. Inr \<lparr>TotalHits = 3, Hits =
         [\<lparr>hit_Id = ''u2'', hit_Type = ''file'', hit_Source = Some ''B''\<rparr>,
          \<lparr>hit_Id = ''u9'', hit_Type = ''file'', hit_Source = Some ''not json''\<rparr>,
          \<lparr>hit_Id = ''u3'', hit_Type = ''folder'', hit_Source = Some ''A''\<rparr>]\<rparr>),
      Bulk = (\<lambda>k batch. None)\<rparr>"

definition example_conn :: ESConnection where
  "example_conn = \<lparr>client = example_client, index_name = ''data''\<rparr>"

definition example_snapshot :: "string \<rightharpoonup> ElasticsearchDocument" where
  "example_snapshot = [''u3'' \<mapsto> doc_a, ''u4'' \<mapsto> doc_a, ''u5'' \<mapsto> doc_a, ''u6'' \<mapsto> doc_a]"

definition example_types :: "string \<rightharpoonup> string" where
  "example_types = [''u3'' \<mapsto> ''folder'', ''u4'' \<mapsto> ''file'', ''u6'' \<mapsto> ''percolator'']"

definition example_order :: "(string \<rightharpoonup> ElasticsearchDocument) \<Rightarrow> string list" where
  "example_order m = [''u5'', ''u6'', ''u3'', ''u4'']"

definition example_state :: pass_state where
  "example_state = \<lparr>logger = [], stats = zeroRows, seenEsDocs = [''u4'' \<mapsto> True],
     indexer = NewBulkIndexer example_conn 1000\<rparr>"

definition example_esDocs :: "string \<rightharpoonup> ElasticsearchDocument" where
  "example_esDocs = [''u2'' \<mapsto> doc_a\<lparr>DateModified := 90\<rparr>, ''u3'' \<mapsto> doc_a]"

definition example_esDocTypes :: "string \<rightharpoonup> string" where
  "example_esDocTypes = [''u2'' \<mapsto> ''file'', ''u3'' \<mapsto> ''folder'']"

definition example_tx :: ICATTx where
  "example_tx =
     \<lparr>CreateTemporaryTable = (\<lambda>name. Inr 2),
      GetDataObjects = Inr [Inr (''u1'', ''A''), Inr (''u2'', ''not json''), Inr (''u4'', ''A'')],
      GetCollections = Inr [Inr (''u3'', ''A'')]\<rparr>"

definition example_db :: ICATConnection where
  "example_db = \<lparr>BeginTx = Inr example_tx\<rparr>"

definition big_tx :: ICATTx where
  "big_tx =
     \<lparr>CreateTemporaryTable = (\<lambda>name. if name = ''base_object_uuids'' then Inr 11 else Inr 0),
      GetDataObjects = Inr [Inr (''u1'', ''A'')],
      GetCollections = Inr []\<rparr>"

definition example_start :: pass_state where
  "example_start =
     \<lparr>logger = [(DebugLevel, ''Indexing prefix %s'', [S ''u'']),
                (DebugLevel,
                 ''Got %d rows for prefix %s (note that this may include stale unused metadata)'',
                 [D 2, S ''u'']),
                (DebugLevel, ''Got %d documents for prefix %s (ES)'', [D 3, S ''u'']),
                (DebugLevel, ''Got %d rows for perms'', [D 2]),
                (DebugLevel, ''Got %d rows for metadata'', [D 2])],
      stats = zeroRows\<lparr>rows := 2, documents := 3\<rparr>, seenEsDocs = Map.empty,
      indexer = NewBulkIndexer example_conn 1000\<rparr>"

definition index_u1 :: bulk_req where
  "index_u1 = BulkIndexRequest ''data'' ''file'' ''u1'' ''A''"

definition index_u2 :: bulk_req where
  "index_u2 = BulkIndexRequest ''data'' ''file'' ''u2'' ''A''"

definition delete_u3 :: bulk_req where
  "delete_u3 = BulkDeleteRequest ''data'' ''folder'' ''u3''"

definition quiet_tx :: ICATTx where
  "quiet_tx =
     \<lparr>CreateTemporaryTable = (\<lambda>name. Inr 2),
      GetDataObjects = Inr [Inr (''u1'', ''A''), Inr (''u2'', ''A'')],
      GetCollections = Inr []\<rparr>"

definition quiet_db :: ICATConnection where
  "quiet_db = \<lparr>BeginTx = Inr quiet_tx\<rparr>"

definition snapshot_order :: "(string \<rightharpoonup> ElasticsearchDocument) \<Rightarrow> string list" where
  "snapshot_order m = [''u3'', ''u2'']"

definition twin_client :: elastic_Client where
  "twin_client =
     \<lparr>Search = (\<lambda>idx prefix. Inr \<lparr>TotalHits = 2, Hits =
         [\<lparr>hit_Id = ''u2'', hit_Type = ''file'', hit_Source = Some ''not json''\<rparr>,
          \<lparr>hit_Id = ''u2'', hit_Type = ''folder'', hit_Source = Some ''A''\<rparr>]\<rparr>),
      Bulk = (\<lambda>k batch. None)\<rparr>"

definition twin_conn :: ESConnection where
  "twin_conn = \<lparr>client = twin_client, index_name = ''data''\<rparr>"

definition folder_tx :: ICATTx where
  "folder_tx =
     \<lparr>CreateTemporaryTable = (\<lambda>name. Inr 2),
      GetDataObjects = Inr [Inr (''u1'', ''A'')],
      GetCollections = Inr [Inr (''u7'', ''A''), Inr (''u3'', ''not json''), Inr (''u8'', ''A'')]\<rparr>"

definition folder_db :: ICATConnection where
  "folder_db = \<lparr>BeginTx = Inr folder_tx\<rparr>"

section \<open>Properties of the document equality\<close>

lemma Equal_iff:
  "Equal a b \<longleftrightarrow>
     DateModified a = DateModified b \<and> FileSize a = FileSize b \<and> Path a = Path b \<and>
     Label a = Label b \<and> Id' a = Id' b \<and> Creator a = Creator b \<and>
     FileType a = FileType b \<and> DateCreated a = DateCreated b \<and>
     set (Metadata a) = set (Metadata b) \<and>
     set (UserPermissions a) = set (UserPermissions b)"
  by (simp add: Equal_def metadataEqual_def permsEqual_def)

lemma Equal_sym: "Equal a b \<longleftrightarrow> Equal b a"
  unfolding Equal_iff by (rule iffI; elim conjE; intro conjI; erule sym)

lemma Equal_Metadata_cong:
  "set ms' = set ms \<Longrightarrow> Equal (a\<lparr>Metadata := ms'\<rparr>) b = Equal (a\<lparr>Metadata := ms\<rparr>) b"
  by (simp add: Equal_iff)

lemma Equal_UserPermissions_cong:
  "set ps' = set ps \<Longrightarrow>
     Equal (a\<lparr>UserPermissions := ps'\<rparr>) b = Equal (a\<lparr>UserPermissions := ps\<rparr>) b"
  by (simp add: Equal_iff)

lemma Equal_scalar:
  "DateModified a \<noteq> DateModified b \<or> FileSize a \<noteq> FileSize b \<or> Path a \<noteq> Path b \<or>
    Label a \<noteq> Label b \<or> Creator a \<noteq> Creator b \<or> FileType a \<noteq> FileType b \<or>
    DateCreated a \<noteq> DateCreated b \<or> Id' a \<noteq> Id' b \<Longrightarrow> \<not> Equal a b"
  unfolding Equal_iff by blast

text \<open>
  C2. The document equality is reflexive and symmetric. Replacing the metadata list, or
  the list of user permissions, of a document by a list with the same elements (any
  permutation of it, which has the same multiset, and any list that repeats or drops
  repeated entries, which has the same set) never changes the result of a comparison, on
  either side. Two documents that differ in one of the eight scalar fields are not
  equal.
\<close>

theorem Equal_spec:
  "Equal a a \<and>
   (Equal a b \<longleftrightarrow> Equal b a) \<and>
   (mset ms' = mset ms \<or> set ms' = set ms \<longrightarrow>
      Equal (a\<lparr>Metadata := ms'\<rparr>) b = Equal (a\<lparr>Metadata := ms\<rparr>) b \<and>
      Equal b (a\<lparr>Metadata := ms'\<rparr>) = Equal b (a\<lparr>Metadata := ms\<rparr>)) \<and>
   (mset ps' = mset ps \<or> set ps' = set ps \<longrightarrow>
      Equal (a\<lparr>UserPermissions := ps'\<rparr>) b = Equal (a\<lparr>UserPermissions := ps\<rparr>) b \<and>
      Equal b (a\<lparr>UserPermissions := ps'\<rparr>) = Equal b (a\<lparr>UserPermissions := ps\<rparr>)) \<and>
   (DateModified a \<noteq> DateModified b \<or> FileSize a \<noteq> FileSize b \<or> Path a \<noteq> Path b \<or>
    Label a \<noteq> Label b \<or> Creator a \<noteq> Creator b \<or> FileType a \<noteq> FileType b \<or>
    DateCreated a \<noteq> DateCreated b \<or> Id' a \<noteq> Id' b \<longrightarrow> \<not> Equal a b)"
proof (intro conjI impI)
  show "Equal a a" by (simp add: Equal_iff)
  show "Equal a b \<longleftrightarrow> Equal b a" by (rule Equal_sym)
next
  assume "mset ms' = mset ms \<or> set ms' = set ms"
  then have s: "set ms' = set ms" using mset_eq_setD by blast
  show "Equal (a\<lparr>Metadata := ms'\<rparr>) b = Equal (a\<lparr>Metadata := ms\<rparr>) b"
    by (rule Equal_Metadata_cong [OF s])
  show "Equal b (a\<lparr>Metadata := ms'\<rparr>) = Equal b (a\<lparr>Metadata := ms\<rparr>)"
    using Equal_Metadata_cong [OF s, of a b] by (simp only: Equal_sym [of b])
next
  assume "mset ps' = mset ps \<or> set ps' = set ps"
  then have s: "set ps' = set ps" using mset_eq_setD by blast
  show "Equal (a\<lparr>UserPermissions := ps'\<rparr>) b = Equal (a\<lparr>UserPermissions := ps\<rparr>) b"
    by (rule Equal_UserPermissions_cong [OF s])
  show "Equal b (a\<lparr>UserPermissions := ps'\<rparr>) = Equal b (a\<lparr>UserPermissions := ps\<rparr>)"
    using Equal_UserPermissions_cong [OF s, of a b] by (simp only: Equal_sym [of b])
next
  assume "DateModified a \<noteq> DateModified b \<or> FileSize a \<noteq> FileSize b \<or> Path a \<noteq> Path b \<or>
    Label a \<noteq> Label b \<or> Creator a \<noteq> Creator b \<or> FileType a \<noteq> FileType b \<or>
    DateCreated a \<noteq> DateCreated b \<or> Id' a \<noteq> Id' b"
  then show "\<not> Equal a b" by (rule Equal_scalar)
qed

theorem Equal_spec_witness:
  "Equal (doc_a\<lparr>Metadata := [md2, md1, md1]\<rparr>) doc_a = Equal (doc_a\<lparr>Metadata := [md1, md2]\<rparr>) doc_a \<and>
   Equal (doc_a\<lparr>Metadata := [md1, md2]\<rparr>) doc_a \<and>
   \<not> Equal (doc_a\<lparr>DateModified := 90\<rparr>) doc_a"
  using Equal_spec [where a = doc_a and b = doc_a and ms' = "[md2, md1, md1]" and ms = "[md1, md2]"
      and ps = "[]" and ps' = "[]"]
    Equal_spec [where a = "doc_a\<lparr>DateModified := 90\<rparr>" and b = doc_a and ms' = "[]" and ms = "[]"
      and ps = "[]" and ps' = "[]"]
  by (simp add: Equal_iff doc_a_def md1_def md2_def insert_commute)

section \<open>Properties of the classification\<close>

text \<open>
  C1. \<open>classify\<close> returns \<open>IndexDocument\<close> (and no error) when the id is not a key of
  the snapshot. When the id is a key and the projected JSON decodes, it returns no
  error, \<open>UpdateDocument\<close> exactly when the decoded document is not \<open>Equal\<close> to the
  snapshot's document for the id, and \<open>NoAction\<close> exactly when it is.
\<close>

theorem classify_spec:
  "(esDocs ident = None \<longrightarrow> classify um ident jsonstr esDocs = (IndexDocument, None)) \<and>
   (esDocs ident = Some indexed \<and> um jsonstr = Inr doc \<longrightarrow>
      snd (classify um ident jsonstr esDocs) = None \<and>
      (fst (classify um ident jsonstr esDocs) = UpdateDocument \<longleftrightarrow> \<not> Equal doc indexed) \<and>
      (fst (classify um ident jsonstr esDocs) = NoAction \<longleftrightarrow> Equal doc indexed))"
  by (simp add: classify_def)

theorem classify_spec_witness:
  "classify example_unmarshal ''u1'' ''A'' Map.empty = (IndexDocument, None) \<and>
   fst (classify example_unmarshal ''u2'' ''A'' [''u2'' \<mapsto> doc_a\<lparr>DateModified := 90\<rparr>]) = UpdateDocument \<and>
   fst (classify example_unmarshal ''u2'' ''C'' [''u2'' \<mapsto> doc_a]) = NoAction"
  using classify_spec [where esDocs = Map.empty and ident = "''u1''" and um = example_unmarshal
      and jsonstr = "''A''"]
    classify_spec [where esDocs = "[''u2'' \<mapsto> doc_a\<lparr>DateModified := 90\<rparr>]" and ident = "''u2''"
      and indexed = "doc_a\<lparr>DateModified := 90\<rparr>" and um = example_unmarshal
      and jsonstr = "''A''" and doc = doc_a]
    classify_spec [where esDocs = "[''u2'' \<mapsto> doc_a]" and ident = "''u2''" and indexed = doc_a
      and um = example_unmarshal and jsonstr = "''C''"
      and doc = "doc_a\<lparr>Metadata := [md2, md1, md1]\<rparr>"]
  by (simp add: example_unmarshal_def Equal_iff doc_a_def insert_commute)

section \<open>Properties of the deletion phase\<close>

lemma enqueued_Flush: "enqueued (fst (Flush ix)) = enqueued ix"
  by (simp add: Flush_def enqueued_def split: option.splits)

lemma enqueued_Add: "enqueued (fst (Add ix r)) = enqueued ix @ [r]"
proof -
  have "enqueued (ix\<lparr>buffer := buffer ix @ [r]\<rparr>) = enqueued ix @ [r]"
    by (simp add: enqueued_def)
  then show ?thesis
    by (simp add: Add_def Let_def enqueued_Flush)
qed

lemma deletion_step_seen:
  "seen (seenEsDocs st) ident \<Longrightarrow> deletion_step T conn ident st = (st, None)"
  by (simp add: deletion_step_def)

lemma deletion_step_seenEsDocs:
  "seenEsDocs (fst (deletion_step T conn ident st)) = seenEsDocs st"
  by (simp add: deletion_step_def Let_def split: option.splits prod.splits)

lemma deletion_step_enqueued:
  "enqueued (indexer (fst (deletion_step T conn ident st))) =
     enqueued (indexer st) @
       (if seen (seenEsDocs st) ident then [] else [delete_req conn (docType_of T ident) ident])"
  using enqueued_Add [of "indexer st" "delete_req conn (docType_of T ident) ident"]
  by (auto simp: deletion_step_def Let_def docType_of_def split: option.splits prod.splits)

lemma errors_logged_append: "errors_logged (xs @ ys) = errors_logged xs @ errors_logged ys"
  by (simp add: errors_logged_def)

lemma errors_logged_Nil: "errors_logged [] = []"
  by (simp add: errors_logged_def)

lemma errors_logged_Debug:
  "errors_logged ((DebugLevel, f, args) # lg) = errors_logged lg"
  by (simp add: errors_logged_def)

lemma errors_logged_anomaly:
  "errors_logged (anomaly ident # lg) = anomaly ident # errors_logged lg"
  by (simp add: errors_logged_def anomaly_def)

lemma deletion_step_errors_logged:
  "errors_logged (logger (fst (deletion_step T conn ident st))) =
     errors_logged (logger st) @
       (if \<not> seen (seenEsDocs st) ident \<and> T ident = None then [anomaly ident] else [])"
proof (cases "seen (seenEsDocs st) ident")
  case True
  then show ?thesis by (simp add: deletion_step_def)
next
  case False
  show ?thesis
  proof (cases "T ident")
    case None
    with False show ?thesis
      by (simp add: deletion_step_def Let_def anomaly_def [symmetric] errors_logged_append
          errors_logged_Nil errors_logged_Debug errors_logged_anomaly
          split: prod.splits option.splits)
  next
    case (Some t)
    with False show ?thesis
      by (simp add: deletion_step_def Let_def errors_logged_append errors_logged_Nil
          errors_logged_Debug split: prod.splits option.splits)
  qed
qed

lemma deletion_step_dataobjectsRemoved:
  "dataobjectsRemoved (stats (fst (deletion_step T conn ident st))) =
     dataobjectsRemoved (stats st) +
       (if \<not> seen (seenEsDocs st) ident \<and> docType_of T ident = ''file'' then 1 else 0)"
  by (auto simp: deletion_step_def Let_def docType_of_def split: option.splits prod.splits)

lemma deletion_step_collsRemoved:
  "collsRemoved (stats (fst (deletion_step T conn ident st))) =
     collsRemoved (stats st) +
       (if \<not> seen (seenEsDocs st) ident \<and> docType_of T ident = ''folder'' then 1 else 0)"
  by (auto simp: deletion_step_def Let_def docType_of_def split: option.splits prod.splits)

lemma for_each_append:
  "for_each body (xs @ ys) st =
     (case for_each body xs st of
        (st1, Some err) \<Rightarrow> (st1, Some err)
      | (st1, None) \<Rightarrow> for_each body ys st1)"
  by (induction xs arbitrary: st) (auto split: prod.splits option.splits)

lemma deletions_done_Nil: "deletions_done T conn [] st st"
  by (simp add: deletions_done_def)

lemma deletions_done_step:
  "deletion_step T conn k st = (st1, e) \<Longrightarrow> deletions_done T conn [k] st st1"
  using deletion_step_seenEsDocs [of T conn k st] deletion_step_enqueued [of T conn k st]
    deletion_step_errors_logged [of T conn k st] deletion_step_dataobjectsRemoved [of T conn k st]
    deletion_step_collsRemoved [of T conn k st]
  by (simp add: deletions_done_def)

lemma deletions_done_Cons:
  "deletions_done T conn [k] st st1 \<Longrightarrow> deletions_done T conn ks st1 st' \<Longrightarrow>
     deletions_done T conn (k # ks) st st'"
  by (simp add: deletions_done_def)

lemma for_each_deletions:
  "for_each (deletion_step T conn) ks st = (st', e) \<Longrightarrow>
     \<exists>n. n \<le> length ks \<and> (e = None \<longrightarrow> n = length ks) \<and>
         deletions_done T conn (take n ks) st st'"
proof (induction ks arbitrary: st)
  case Nil
  then show ?case by (simp add: deletions_done_Nil)
next
  case (Cons k ks)
  obtain st1 e1 where s: "deletion_step T conn k st = (st1, e1)"
    by (cases "deletion_step T conn k st")
  note one = deletions_done_step [OF s]
  show ?case
  proof (cases e1)
    case None
    with s Cons.prems have r: "for_each (deletion_step T conn) ks st1 = (st', e)" by simp
    from Cons.IH [OF r] obtain n where n: "n \<le> length ks" "e = None \<longrightarrow> n = length ks"
      "deletions_done T conn (take n ks) st1 st'" by blast
    have "deletions_done T conn (take (Suc n) (k # ks)) st st'"
      using deletions_done_Cons [OF one n(3)] by simp
    with n(1,2) show ?thesis by (intro exI [of _ "Suc n"]) simp
  next
    case (Some err)
    with s Cons.prems have "st' = st1" and "e = Some err" by simp_all
    with one show ?thesis by (intro exI [of _ "Suc 0"]) simp
  qed
qed

lemma count_delete_reqs:
  "distinct ks \<Longrightarrow>
     length (filter (\<lambda>r. req_id r = ident) (map (\<lambda>i. delete_req conn (f i) i) (filter P ks))) =
       (if ident \<in> set ks \<and> P ident then 1 else 0)"
  by (induction ks) (auto simp: delete_req_def)

lemma processDeletions_for_each:
  "processDeletions range_keys esDocs esDocTypes conn st = (st', e) \<Longrightarrow>
     \<exists>st1. for_each (deletion_step esDocTypes conn) (range_keys esDocs) st = (st1, e) \<and>
       seenEsDocs st' = seenEsDocs st1 \<and> stats st' = stats st1 \<and> indexer st' = indexer st1 \<and>
       errors_logged (logger st') = errors_logged (logger st1)"
  by (auto simp: processDeletions_def errors_logged_def split: prod.splits option.splits)

lemmas example_defs = example_client_def example_conn_def example_snapshot_def example_types_def
  example_order_def example_state_def

lemmas pass_defs = processDeletions_def deletion_step_def seen_def delete_req_def Add_def Flush_def
  NewBulkIndexer_def esutils_NewBulkIndexer_def enqueued_def errors_logged_def anomaly_def
  docType_of_def zeroRows_def

lemma example_range: "range_of example_snapshot (example_order example_snapshot)"
  by (auto simp: range_of_def example_defs)

lemma example_deletions_ok:
  "snd (processDeletions example_order example_snapshot example_types example_conn example_state) = None"
  by (simp add: example_defs pass_defs)

text \<open>
  C5. When \<open>processDeletions\<close> returns without error, on a key order that lists every
  key of the snapshot once, the requests it has enqueued are exactly one delete for every
  id of the snapshot that is not marked seen, tagged with the recorded type of the id, or
  with \<open>file\<close> when no type is recorded; for every other id (seen, or not in the
  snapshot) it has enqueued none. The anomalies it has logged are those of the unseen ids
  without a recorded type. An error of \<open>Add\<close> stops the loop and is returned.
\<close>

theorem processDeletions_spec:
  assumes r: "range_of esDocs (range_keys esDocs)"
    and ok: "processDeletions range_keys esDocs esDocTypes conn st = (st', None)"
  shows "enqueued (indexer st') = enqueued (indexer st) @
           map (\<lambda>i. delete_req conn (docType_of esDocTypes i) i)
             (filter (\<lambda>i. \<not> seen (seenEsDocs st) i) (range_keys esDocs)) \<and>
         (\<forall>ident. length (filter (\<lambda>r. req_id r = ident)
                      (drop (length (enqueued (indexer st))) (enqueued (indexer st')))) =
                   (if ident \<in> dom esDocs \<and> \<not> seen (seenEsDocs st) ident then 1 else 0)) \<and>
         errors_logged (logger st') = errors_logged (logger st) @
           map anomaly
             (filter (\<lambda>i. \<not> seen (seenEsDocs st) i \<and> esDocTypes i = None) (range_keys esDocs))"
proof -
  from processDeletions_for_each [OF ok] obtain st1 where
    loop: "for_each (deletion_step esDocTypes conn) (range_keys esDocs) st = (st1, None)"
    and same: "indexer st' = indexer st1" "errors_logged (logger st') = errors_logged (logger st1)"
    by blast
  from for_each_deletions [OF loop] have d: "deletions_done esDocTypes conn (range_keys esDocs) st st1"
    by auto
  have enq: "enqueued (indexer st') = enqueued (indexer st) @
           map (\<lambda>i. delete_req conn (docType_of esDocTypes i) i)
             (filter (\<lambda>i. \<not> seen (seenEsDocs st) i) (range_keys esDocs))"
    using d same by (simp add: deletions_done_def)
  have cnt: "length (filter (\<lambda>r. req_id r = ident)
                      (drop (length (enqueued (indexer st))) (enqueued (indexer st')))) =
                   (if ident \<in> dom esDocs \<and> \<not> seen (seenEsDocs st) ident then 1 else 0)" for ident
    using count_delete_reqs [of "range_keys esDocs" ident conn "docType_of esDocTypes"
        "\<lambda>i. \<not> seen (seenEsDocs st) i"] r
    by (simp add: enq range_of_def)
  have err: "errors_logged (logger st') = errors_logged (logger st) @
           map anomaly
             (filter (\<lambda>i. \<not> seen (seenEsDocs st) i \<and> esDocTypes i = None) (range_keys esDocs))"
    using d same by (simp add: deletions_done_def)
  from enq cnt err show ?thesis by blast
qed

theorem processDeletions_spec_witness:
  "range_of example_snapshot (example_order example_snapshot) \<and>
   snd (processDeletions example_order example_snapshot example_types example_conn example_state)
     = None \<and>
   enqueued (indexer (fst (processDeletions example_order example_snapshot example_types
       example_conn example_state))) =
     [BulkDeleteRequest ''data'' ''file'' ''u5'', BulkDeleteRequest ''data'' ''percolator'' ''u6'',
      BulkDeleteRequest ''data'' ''folder'' ''u3''] \<and>
   errors_logged (logger (fst (processDeletions example_order example_snapshot example_types
       example_conn example_state))) = [anomaly ''u5'']"
proof -
  let ?res = "processDeletions example_order example_snapshot example_types example_conn example_state"
  have ok: "?res = (fst ?res, None)"
    using example_deletions_ok by (simp add: prod_eq_iff)
  have "enqueued (indexer example_state) = []" "errors_logged (logger example_state) = []"
       "seenEsDocs example_state = [''u4'' \<mapsto> True]"
    by (simp_all add: example_defs pass_defs)
  then show ?thesis
    using processDeletions_spec [OF example_range ok] example_range example_deletions_ok
    by (simp add: example_order_def example_types_def seen_def docType_of_def delete_req_def
        example_conn_def)
qed

text \<open>
  C10. For an unseen id whose recorded type is neither \<open>file\<close> nor \<open>folder\<close>, the
  loop body enqueues one delete tagged with that type and leaves every counter of the
  statistics as it was. Over a whole successful run of \<open>processDeletions\<close> the new
  requests hold exactly one delete for that id, and the two counters of removals grow
  by the numbers of the other unseen ids of type file and folder: the id is counted by
  neither.
\<close>

theorem processDeletions_other_type:
  assumes u: "\<not> seen (seenEsDocs st) ident"
    and t: "esDocTypes ident = Some t" "t \<noteq> ''file''" "t \<noteq> ''folder''"
  shows "enqueued (indexer (fst (deletion_step esDocTypes conn ident st))) =
           enqueued (indexer st) @ [BulkDeleteRequest (index_name conn) t ident] \<and>
         stats (fst (deletion_step esDocTypes conn ident st)) = stats st \<and>
         (range_of esDocs (range_keys esDocs) \<and> ident \<in> dom esDocs \<and>
          processDeletions range_keys esDocs esDocTypes conn st = (st', None) \<longrightarrow>
            length (filter (\<lambda>r. req_id r = ident)
              (drop (length (enqueued (indexer st))) (enqueued (indexer st')))) = 1 \<and>
            BulkDeleteRequest (index_name conn) t ident \<in>
              set (drop (length (enqueued (indexer st))) (enqueued (indexer st'))) \<and>
            dataobjectsRemoved (stats st') = dataobjectsRemoved (stats st) +
              of_nat (length (filter (\<lambda>i. i \<noteq> ident \<and> \<not> seen (seenEsDocs st) i \<and>
                        docType_of esDocTypes i = ''file'') (range_keys esDocs))) \<and>
            collsRemoved (stats st') = collsRemoved (stats st) +
              of_nat (length (filter (\<lambda>i. i \<noteq> ident \<and> \<not> seen (seenEsDocs st) i \<and>
                        docType_of esDocTypes i = ''folder'') (range_keys esDocs))))"
proof (intro conjI impI)
  have dt: "docType_of esDocTypes ident = t" using t by (simp add: docType_of_def)
  show "enqueued (indexer (fst (deletion_step esDocTypes conn ident st))) =
           enqueued (indexer st) @ [BulkDeleteRequest (index_name conn) t ident]"
    using deletion_step_enqueued [of esDocTypes conn ident st] u dt by (simp add: delete_req_def)
  show "stats (fst (deletion_step esDocTypes conn ident st)) = stats st"
    using u t by (simp add: deletion_step_def Let_def split: prod.splits option.splits)
  assume a: "range_of esDocs (range_keys esDocs) \<and> ident \<in> dom esDocs \<and>
          processDeletions range_keys esDocs esDocTypes conn st = (st', None)"
  then have r: "range_of esDocs (range_keys esDocs)" and k: "ident \<in> dom esDocs"
    and ok: "processDeletions range_keys esDocs esDocTypes conn st = (st', None)" by simp_all
  from processDeletions_for_each [OF ok] obtain st1 where
    loop: "for_each (deletion_step esDocTypes conn) (range_keys esDocs) st = (st1, None)"
    and same: "indexer st' = indexer st1" "stats st' = stats st1"
    by blast
  from for_each_deletions [OF loop] have d: "deletions_done esDocTypes conn (range_keys esDocs) st st1"
    by auto
  have enq: "drop (length (enqueued (indexer st))) (enqueued (indexer st')) =
           map (\<lambda>i. delete_req conn (docType_of esDocTypes i) i)
             (filter (\<lambda>i. \<not> seen (seenEsDocs st) i) (range_keys esDocs))"
    using d same by (simp add: deletions_done_def)
  show "length (filter (\<lambda>r. req_id r = ident)
              (drop (length (enqueued (indexer st))) (enqueued (indexer st')))) = 1"
    using count_delete_reqs [of "range_keys esDocs" ident conn "docType_of esDocTypes"
        "\<lambda>i. \<not> seen (seenEsDocs st) i"] r k u
    by (simp add: enq range_of_def)
  have "ident \<in> set (filter (\<lambda>i. \<not> seen (seenEsDocs st) i) (range_keys esDocs))"
    using r k u by (simp add: range_of_def)
  then have "delete_req conn (docType_of esDocTypes ident) ident \<in>
      set (drop (length (enqueued (indexer st))) (enqueued (indexer st')))"
    unfolding enq set_map by (rule imageI)
  then show "BulkDeleteRequest (index_name conn) t ident \<in>
              set (drop (length (enqueued (indexer st))) (enqueued (indexer st')))"
    by (simp add: dt delete_req_def)
  have f: "(\<lambda>i. \<not> seen (seenEsDocs st) i \<and> docType_of esDocTypes i = ''file'') =
        (\<lambda>i. i \<noteq> ident \<and> \<not> seen (seenEsDocs st) i \<and> docType_of esDocTypes i = ''file'')"
    using dt t by auto
  have g: "(\<lambda>i. \<not> seen (seenEsDocs st) i \<and> docType_of esDocTypes i = ''folder'') =
        (\<lambda>i. i \<noteq> ident \<and> \<not> seen (seenEsDocs st) i \<and> docType_of esDocTypes i = ''folder'')"
    using dt t by auto
  show "dataobjectsRemoved (stats st') = dataobjectsRemoved (stats st) +
              of_nat (length (filter (\<lambda>i. i \<noteq> ident \<and> \<not> seen (seenEsDocs st) i \<and>
                        docType_of esDocTypes i = ''file'') (range_keys esDocs)))"
    using d same unfolding deletions_done_def f by simp
  show "collsRemoved (stats st') = collsRemoved (stats st) +
              of_nat (length (filter (\<lambda>i. i \<noteq> ident \<and> \<not> seen (seenEsDocs st) i \<and>
                        docType_of esDocTypes i = ''folder'') (range_keys esDocs)))"
    using d same unfolding deletions_done_def g by simp
qed

theorem processDeletions_other_type_witness:
  "\<not> seen (seenEsDocs example_state) ''u6'' \<and> example_types ''u6'' = Some ''percolator'' \<and>
   enqueued (indexer (fst (deletion_step example_types example_conn ''u6'' example_state))) =
     [BulkDeleteRequest ''data'' ''percolator'' ''u6''] \<and>
   stats (fst (deletion_step example_types example_conn ''u6'' example_state)) = zeroRows \<and>
   length (filter (\<lambda>r. req_id r = ''u6'')
     (enqueued (indexer (fst (processDeletions example_order example_snapshot example_types
        example_conn example_state))))) = 1 \<and>
   dataobjectsRemoved (stats (fst (processDeletions example_order example_snapshot example_types
        example_conn example_state))) = 1 \<and>
   collsRemoved (stats (fst (processDeletions example_order example_snapshot example_types
        example_conn example_state))) = 1"
proof -
  let ?res = "processDeletions example_order example_snapshot example_types example_conn example_state"
  have ok: "?res = (fst ?res, None)"
    using example_deletions_ok by (simp add: prod_eq_iff)
  have u: "\<not> seen (seenEsDocs example_state) ''u6''"
    by (simp add: example_defs seen_def)
  have t: "example_types ''u6'' = Some ''percolator''" "''percolator'' \<noteq> ''file''"
    "''percolator'' \<noteq> ''folder''"
    by (simp_all add: example_defs)
  have k: "''u6'' \<in> dom example_snapshot" by (simp add: example_defs)
  have "enqueued (indexer example_state) = []" "stats example_state = zeroRows"
       "seenEsDocs example_state = [''u4'' \<mapsto> True]" "index_name example_conn = ''data''"
    by (simp_all add: example_defs pass_defs)
  then show ?thesis
    using processDeletions_other_type [where st = example_state and ident = "''u6''"
        and esDocTypes = example_types and t = "''percolator''" and conn = example_conn
        and esDocs = example_snapshot and range_keys = example_order and st' = "fst ?res",
        OF u t]
      example_range ok k u t(1)
    by (simp add: example_order_def example_types_def seen_def docType_of_def zeroRows_def)
qed

section \<open>Properties of the index snapshot\<close>

lemma collectHits_dom:
  "dom esDocs = dom esDocTypes \<Longrightarrow> collectHits um hits esDocs esDocTypes = Some (docs', types') \<Longrightarrow>
     dom docs' = dom types'"
proof (induction hits arbitrary: esDocs esDocTypes)
  case Nil
  then show ?case by simp
next
  case (Cons h hits)
  from Cons.prems(2) obtain b where b: "hit_Source h = Some b"
    by (cases "hit_Source h") simp_all
  show ?case
  proof (cases "um b")
    case (Inl err)
    with Cons.prems b have "collectHits um hits esDocs esDocTypes = Some (docs', types')" by simp
    with Cons.prems(1) show ?thesis by (rule Cons.IH)
  next
    case (Inr doc)
    with Cons.prems b have
      "collectHits um hits (esDocs(hit_Id h \<mapsto> doc)) (esDocTypes(hit_Id h \<mapsto> hit_Type h)) =
         Some (docs', types')" by simp
    moreover have "dom (esDocs(hit_Id h \<mapsto> doc)) = dom (esDocTypes(hit_Id h \<mapsto> hit_Type h))"
      using Cons.prems(1) by simp
    ultimately show ?thesis using Cons.IH by blast
  qed
qed

lemma getSearchResults_dom:
  "dom esDocs = dom esDocTypes"
  if "getSearchResults maxInPrefix um lg prefix conn = Returns (lg', n, esDocs, esDocTypes, e)"
proof (cases "Search (client conn) (index_name conn) prefix")
  case (Inl err)
  then show ?thesis using that by (auto simp: getSearchResults_def)
next
  case (Inr search)
  show ?thesis
  proof (cases "sint maxInPrefix < sint (TotalHits search)")
    case True
    with Inr that show ?thesis by (auto simp: getSearchResults_def Let_def)
  next
    case False
    with Inr that have
      "collectHits um (Hits search) Map.empty Map.empty = Some (esDocs, esDocTypes)"
      by (simp add: getSearchResults_def Let_def split: option.splits prod.splits)
    with collectHits_dom [of Map.empty Map.empty um "Hits search" esDocs esDocTypes]
    show ?thesis by simp
  qed
qed

lemma example_search:
  "getSearchResults 10 example_unmarshal [] ''u'' example_conn =
     Returns ([(DebugLevel, ''Got %d documents for prefix %s (ES)'', [D 3, S ''u''])], 3,
      example_esDocs, example_esDocTypes, None)"
  by (simp add: getSearchResults_def example_defs example_unmarshal_def example_esDocs_def
      example_esDocTypes_def)

lemma collectHits_undecodable:
  "undecodable um hit \<Longrightarrow>
     collectHits um (hit # hits) esDocs esDocTypes = collectHits um hits esDocs esDocTypes"
  by (simp add: undecodable_def split: option.splits sum.splits)

lemma collectHits_filter:
  "collectHits um hits esDocs esDocTypes =
     collectHits um (filter (\<lambda>h. \<not> undecodable um h) hits) esDocs esDocTypes"
  by (induction hits arbitrary: esDocs esDocTypes)
    (simp_all add: undecodable_def split: option.splits sum.splits)

lemma collectHits_total:
  "\<forall>h\<in>set hits. hit_Source h \<noteq> None \<Longrightarrow>
     \<exists>docs' types'. collectHits um hits esDocs esDocTypes = Some (docs', types')"
  by (induction hits arbitrary: esDocs esDocTypes) (auto split: sum.splits)

lemma collectHits_absent:
  "esDocs ident = None \<Longrightarrow> \<forall>h. h \<in> set hits \<and> hit_Id h = ident \<longrightarrow> undecodable um h \<Longrightarrow>
     collectHits um hits esDocs esDocTypes = Some (docs', types') \<Longrightarrow> docs' ident = None"
proof (induction hits arbitrary: esDocs esDocTypes)
  case Nil
  then show ?case by simp
next
  case (Cons h hits)
  from Cons.prems(3) obtain b where b: "hit_Source h = Some b"
    by (cases "hit_Source h") simp_all
  have rest: "\<forall>h. h \<in> set hits \<and> hit_Id h = ident \<longrightarrow> undecodable um h"
    using Cons.prems(2) by simp
  show ?case
  proof (cases "um b")
    case (Inl err)
    with Cons.prems(3) b have "collectHits um hits esDocs esDocTypes = Some (docs', types')"
      by simp
    with Cons.prems(1) rest show ?thesis by (rule Cons.IH)
  next
    case (Inr doc)
    with b have "\<not> undecodable um h" by (simp add: undecodable_def)
    with Cons.prems(2) have "hit_Id h \<noteq> ident" by auto
    with Cons.prems(1) have n: "(esDocs(hit_Id h \<mapsto> doc)) ident = None" by simp
    from Inr Cons.prems(3) b have
      "collectHits um hits (esDocs(hit_Id h \<mapsto> doc)) (esDocTypes(hit_Id h \<mapsto> hit_Type h)) =
         Some (docs', types')" by simp
    with n rest show ?thesis by (rule Cons.IH)
  qed
qed

lemma collectHits_no_source:
  "hit_Source hit = None \<Longrightarrow> collectHits um (hit # hits) esDocs esDocTypes = None"
  by simp

lemma ReindexPrefix_panics:
  assumes "BeginTx db = Inr tx"
    and "createUuidsTable maxInPrefix [(DebugLevel, ''Indexing prefix %s'', [S prefix])] prefix tx =
      (lgu, r, None)"
    and "getSearchResults maxInPrefix um lgu prefix conn = Panics lgp"
  shows "ReindexPrefix maxInPrefix um range_keys db conn prefix =
    panic_pass lgp (zeroRows\<lparr>rows := r\<rparr>)"
  using assms by (simp add: ReindexPrefix_def Let_def)

text \<open>
  C9. In every result of \<open>getSearchResults\<close> the two maps have the same keys. So, on a
  key order that lists the keys of the snapshot, \<open>processDeletions\<close> never takes the
  branch for a missing type: it logs no entry of level Error (the branch is the only
  place that writes one), and every delete it enqueues carries a type the snapshot
  records for its id.
\<close>

theorem snapshot_types_total:
  assumes g: "getSearchResults maxInPrefix um lg prefix conn =
      Returns (lg', n, esDocs, esDocTypes, e)"
  shows "dom esDocs = dom esDocTypes \<and>
         (range_of esDocs (range_keys esDocs) \<longrightarrow>
            errors_logged (logger (fst (processDeletions range_keys esDocs esDocTypes conn' st))) =
              errors_logged (logger st) \<and>
            (\<forall>r. r \<in> set (drop (length (enqueued (indexer st)))
                     (enqueued (indexer (fst (processDeletions range_keys esDocs esDocTypes conn' st)))))
                \<longrightarrow> (\<exists>ident. esDocTypes ident \<noteq> None \<and>
                      r = delete_req conn' (the (esDocTypes ident)) ident)))"
proof (intro conjI impI allI)
  show d: "dom esDocs = dom esDocTypes" by (rule getSearchResults_dom [OF g])
  assume r: "range_of esDocs (range_keys esDocs)"
  obtain st' e' where p: "processDeletions range_keys esDocs esDocTypes conn' st = (st', e')"
    by (cases "processDeletions range_keys esDocs esDocTypes conn' st")
  from processDeletions_for_each [OF p] obtain st1 where
    loop: "for_each (deletion_step esDocTypes conn') (range_keys esDocs) st = (st1, e')"
    and same: "indexer st' = indexer st1" "errors_logged (logger st') = errors_logged (logger st1)"
    by blast
  from for_each_deletions [OF loop] obtain k where
    k: "deletions_done esDocTypes conn' (take k (range_keys esDocs)) st st1" by blast
  have typed: "esDocTypes i \<noteq> None" if "i \<in> set (take k (range_keys esDocs))" for i
  proof -
    from that have "i \<in> set (range_keys esDocs)" by (rule in_set_takeD)
    with r d show ?thesis by (auto simp: range_of_def)
  qed
  then have none: "filter (\<lambda>i. \<not> seen (seenEsDocs st) i \<and> esDocTypes i = None)
      (take k (range_keys esDocs)) = []"
    by (auto simp: filter_empty_conv)
  show "errors_logged (logger (fst (processDeletions range_keys esDocs esDocTypes conn' st))) =
              errors_logged (logger st)"
    using k same none p by (simp add: deletions_done_def)
  fix r'
  assume "r' \<in> set (drop (length (enqueued (indexer st)))
      (enqueued (indexer (fst (processDeletions range_keys esDocs esDocTypes conn' st)))))"
  then have "r' \<in> set (map (\<lambda>i. delete_req conn' (docType_of esDocTypes i) i)
         (filter (\<lambda>i. \<not> seen (seenEsDocs st) i) (take k (range_keys esDocs))))"
    using k same p by (simp add: deletions_done_def)
  then obtain i where i: "i \<in> set (take k (range_keys esDocs))"
    and r': "r' = delete_req conn' (docType_of esDocTypes i) i" by auto
  from typed [OF i] have "docType_of esDocTypes i = the (esDocTypes i)"
    by (auto simp: docType_of_def)
  with r' typed [OF i] show "\<exists>ident. esDocTypes ident \<noteq> None \<and>
      r' = delete_req conn' (the (esDocTypes ident)) ident" by auto
qed

theorem snapshot_types_total_witness:
  "dom example_esDocs = dom example_esDocTypes \<and>
   range_of example_esDocs [''u3'', ''u2''] \<and>
   errors_logged (logger (fst (processDeletions (\<lambda>m. [''u3'', ''u2'']) example_esDocs
      example_esDocTypes example_conn example_state))) = []"
proof -
  have r: "range_of example_esDocs [''u3'', ''u2'']"
    by (auto simp: range_of_def example_esDocs_def)
  have "errors_logged (logger example_state) = []"
    by (simp add: example_defs errors_logged_def)
  then show ?thesis
    using snapshot_types_total [OF example_search, where range_keys = "\<lambda>m. [''u3'', ''u2'']"
        and conn' = example_conn and st = example_state] r
    by simp
qed

text \<open>
  C6, as amended. A hit whose source does not decode is skipped: the loop goes on with
  the hits after it and the maps are as they were. So the outcome of
  \<open>getSearchResults\<close>, when the search succeeds within the cap, is the outcome for the
  hits without the undecodable ones, and its log gains the line with the document
  count and nothing else. When every hit has a source the call returns, with no error;
  an id all of whose hits are undecodable is then not a key of the snapshot, and
  \<open>classify\<close> answers \<open>IndexDocument\<close> for it.
\<close>

theorem getSearchResults_skips_undecodable:
  assumes s: "Search (client conn) (index_name conn) prefix = Inr search"
    and le: "\<not> sint maxInPrefix < sint (TotalHits search)"
  shows "(undecodable um hit \<longrightarrow>
            collectHits um (hit # hits) esDocs esDocTypes =
              collectHits um hits esDocs esDocTypes) \<and>
         getSearchResults maxInPrefix um lg prefix conn =
           (case collectHits um (filter (\<lambda>h. \<not> undecodable um h) (Hits search))
                   Map.empty Map.empty of
              None \<Rightarrow>
                Panics (lg @ [(DebugLevel, ''Got %d documents for prefix %s (ES)'',
                               [D (TotalHits search), S prefix])])
            | Some (docs', types') \<Rightarrow>
                Returns (lg @ [(DebugLevel, ''Got %d documents for prefix %s (ES)'',
                                [D (TotalHits search), S prefix])],
                         TotalHits search, docs', types', None)) \<and>
         ((\<forall>h\<in>set (Hits search). hit_Source h \<noteq> None) \<longrightarrow>
            (\<exists>docs' types'.
               getSearchResults maxInPrefix um lg prefix conn =
                 Returns (lg @ [(DebugLevel, ''Got %d documents for prefix %s (ES)'',
                                 [D (TotalHits search), S prefix])],
                          TotalHits search, docs', types', None) \<and>
               ((\<forall>h. h \<in> set (Hits search) \<and> hit_Id h = ident \<longrightarrow> undecodable um h) \<longrightarrow>
                  docs' ident = None \<and>
                  classify um ident jsonstr docs' = (IndexDocument, None))))"
proof (intro conjI impI)
  let ?line = "(DebugLevel, ''Got %d documents for prefix %s (ES)'',
                 [D (TotalHits search), S prefix])"
  show "collectHits um (hit # hits) esDocs esDocTypes = collectHits um hits esDocs esDocTypes"
    if "undecodable um hit"
    using that by (rule collectHits_undecodable)
  have unfold: "getSearchResults maxInPrefix um lg prefix conn =
      (case collectHits um (Hits search) Map.empty Map.empty of
         None \<Rightarrow> Panics (lg @ [?line])
       | Some (docs', types') \<Rightarrow> Returns (lg @ [?line], TotalHits search, docs', types', None))"
    using s le by (simp add: getSearchResults_def Let_def)
  show "getSearchResults maxInPrefix um lg prefix conn =
      (case collectHits um (filter (\<lambda>h. \<not> undecodable um h) (Hits search))
              Map.empty Map.empty of
         None \<Rightarrow> Panics (lg @ [?line])
       | Some (docs', types') \<Rightarrow> Returns (lg @ [?line], TotalHits search, docs', types', None))"
    using unfold collectHits_filter [of um "Hits search" Map.empty Map.empty] by simp
  assume all: "\<forall>h\<in>set (Hits search). hit_Source h \<noteq> None"
  from collectHits_total [OF all] obtain docs' types' where
    c: "collectHits um (Hits search) Map.empty Map.empty = Some (docs', types')" by blast
  have r: "getSearchResults maxInPrefix um lg prefix conn =
      Returns (lg @ [?line], TotalHits search, docs', types', None)"
    by (simp add: unfold c)
  have a: "docs' ident = None \<and> classify um ident jsonstr docs' = (IndexDocument, None)"
    if u: "\<forall>h. h \<in> set (Hits search) \<and> hit_Id h = ident \<longrightarrow> undecodable um h"
  proof -
    have "Map.empty ident = (None :: ElasticsearchDocument option)" by simp
    then have "docs' ident = None" using u c by (rule collectHits_absent)
    then show ?thesis by (simp add: classify_def)
  qed
  from r a show "\<exists>docs' types'.
      getSearchResults maxInPrefix um lg prefix conn =
        Returns (lg @ [?line], TotalHits search, docs', types', None) \<and>
      ((\<forall>h. h \<in> set (Hits search) \<and> hit_Id h = ident \<longrightarrow> undecodable um h) \<longrightarrow>
         docs' ident = None \<and> classify um ident jsonstr docs' = (IndexDocument, None))"
    by blast
qed

theorem getSearchResults_skips_undecodable_witness:
  "Search (client example_conn) (index_name example_conn) ''u'' = Inr \<lparr>TotalHits = 3, Hits =
         [\<lparr>hit_Id = ''u2'', hit_Type = ''file'', hit_Source = Some ''B''\<rparr>,
          \<lparr>hit_Id = ''u9'', hit_Type = ''file'', hit_Source = Some ''not json''\<rparr>,
          \<lparr>hit_Id = ''u3'', hit_Type = ''folder'', hit_Source = Some ''A''\<rparr>]\<rparr> \<and>
   \<not> sint (10 :: int64) < sint (3 :: int64) \<and>
   undecodable example_unmarshal
     \<lparr>hit_Id = ''u9'', hit_Type = ''file'', hit_Source = Some ''not json''\<rparr> \<and>
   getSearchResults 10 example_unmarshal [] ''u'' example_conn =
     Returns ([(DebugLevel, ''Got %d documents for prefix %s (ES)'', [D 3, S ''u''])], 3,
      example_esDocs, example_esDocTypes, None) \<and>
   example_esDocs ''u9'' = None \<and>
   classify example_unmarshal ''u9'' ''A'' example_esDocs = (IndexDocument, None)"
proof -
  let ?search = "\<lparr>TotalHits = 3 :: int64, Hits =
         [\<lparr>hit_Id = ''u2'', hit_Type = ''file'', hit_Source = Some ''B''\<rparr>,
          \<lparr>hit_Id = ''u9'', hit_Type = ''file'', hit_Source = Some ''not json''\<rparr>,
          \<lparr>hit_Id = ''u3'', hit_Type = ''folder'', hit_Source = Some ''A''\<rparr>]\<rparr>"
  have s: "Search (client example_conn) (index_name example_conn) ''u'' = Inr ?search"
    by (simp add: example_defs)
  have le: "\<not> sint (10 :: int64) < sint (TotalHits ?search)" by simp
  have u: "undecodable example_unmarshal
     \<lparr>hit_Id = ''u9'', hit_Type = ''file'', hit_Source = Some ''not json''\<rparr>"
    by (simp add: undecodable_def example_unmarshal_def)
  have all: "\<forall>h\<in>set (Hits ?search). hit_Source h \<noteq> None" by simp
  have a: "\<forall>h. h \<in> set (Hits ?search) \<and> hit_Id h = ''u9'' \<longrightarrow> undecodable example_unmarshal h"
    by (auto simp: undecodable_def example_unmarshal_def)
  show ?thesis
    using getSearchResults_skips_undecodable [OF s le, where um = example_unmarshal and lg = "[]"
        and ident = "''u9''" and jsonstr = "''A''"
        and hit = "\<lparr>hit_Id = ''u9'', hit_Type = ''file'', hit_Source = Some ''not json''\<rparr>"]
      s u all a example_search
    by auto
qed

text \<open>
  C6 as stated fails in two places. The first hit below has a source that does not
  decode. The whole log of \<open>getSearchResults\<close> is the line with the document count,
  written before the hits are read: the failure is not logged. And the id of the hit is
  a key of the snapshot all the same, through the second hit, which has the same id
  under the other type: the id is not treated as absent, and \<open>classify\<close> answers
  \<open>NoAction\<close> for it, so it is not indexed again.
\<close>

theorem undecodable_hit_not_logged:
  "example_unmarshal ''not json'' = Inl bad_json \<and>
   Search (client twin_conn) (index_name twin_conn) ''u'' = Inr \<lparr>TotalHits = 2, Hits =
         [\<lparr>hit_Id = ''u2'', hit_Type = ''file'', hit_Source = Some ''not json''\<rparr>,
          \<lparr>hit_Id = ''u2'', hit_Type = ''folder'', hit_Source = Some ''A''\<rparr>]\<rparr> \<and>
   getSearchResults 10 example_unmarshal [] ''u'' twin_conn =
     Returns ([(DebugLevel, ''Got %d documents for prefix %s (ES)'', [D 2, S ''u''])], 2,
       [''u2'' \<mapsto> doc_a], [''u2'' \<mapsto> ''folder''], None) \<and>
   classify example_unmarshal ''u2'' ''A'' [''u2'' \<mapsto> doc_a] = (NoAction, None)"
  by (simp add: getSearchResults_def twin_conn_def twin_client_def example_unmarshal_def
      classify_def Equal_iff)

section \<open>Properties of the pass\<close>

lemma prerequisites_Some:
  assumes p: "prerequisites maxInPrefix um db conn prefix = Some (tx, esDocs, esDocTypes, st0)"
  shows "\<exists>lg1 r lg2 docs lg3 lg4.
     BeginTx db = Inr tx \<and>
     createUuidsTable maxInPrefix [(DebugLevel, ''Indexing prefix %s'', [S prefix])] prefix tx =
       (lg1, r, None) \<and>
     getSearchResults maxInPrefix um lg1 prefix conn =
       Returns (lg2, docs, esDocs, esDocTypes, None) \<and>
     createPermsTable lg2 tx = (lg3, None) \<and>
     createMetadataTable lg3 tx = (lg4, None) \<and>
     st0 = \<lparr>logger = lg4, stats = zeroRows\<lparr>rows := r, documents := docs\<rparr>,
            seenEsDocs = Map.empty, indexer = NewBulkIndexer conn 1000\<rparr>"
proof -
  from p obtain tx' where b: "BeginTx db = Inr tx'"
    by (cases "BeginTx db") (simp_all add: prerequisites_def)
  obtain lg1 r e1 where
    u: "createUuidsTable maxInPrefix [(DebugLevel, ''Indexing prefix %s'', [S prefix])] prefix tx' =
      (lg1, r, e1)"
    using prod_cases3 by blast
  from p b u have e1: "e1 = None" by (cases e1) (simp_all add: prerequisites_def)
  from p b u e1 obtain res where
    g0: "getSearchResults maxInPrefix um lg1 prefix conn = Returns res"
    by (cases "getSearchResults maxInPrefix um lg1 prefix conn")
      (simp_all add: prerequisites_def)
  obtain lg2 docs D T e2 where res: "res = (lg2, docs, D, T, e2)"
    using prod_cases5 by blast
  note g = g0 [unfolded res]
  from p b u e1 g have e2: "e2 = None" by (cases e2) (simp_all add: prerequisites_def)
  obtain lg3 e3 where cp: "createPermsTable lg2 tx' = (lg3, e3)"
    by (cases "createPermsTable lg2 tx'")
  from p b u e1 g e2 cp have e3: "e3 = None" by (cases e3) (simp_all add: prerequisites_def)
  obtain lg4 e4 where cm: "createMetadataTable lg3 tx' = (lg4, e4)"
    by (cases "createMetadataTable lg3 tx'")
  from p b u e1 g e2 cp e3 cm have e4: "e4 = None" by (cases e4) (simp_all add: prerequisites_def)
  from p b u e1 g e2 cp e3 cm e4 have
    "tx' = tx \<and> D = esDocs \<and> T = esDocTypes \<and>
     \<lparr>logger = lg4, stats = zeroRows\<lparr>rows := r, documents := docs\<rparr>,
            seenEsDocs = Map.empty, indexer = NewBulkIndexer conn 1000\<rparr> = st0"
    by (simp add: prerequisites_def)
  with b u e1 g e2 cp e3 cm e4 show ?thesis by blast
qed

lemma ReindexPrefix_prerequisites:
  assumes p: "prerequisites maxInPrefix um db conn prefix = Some (tx, esDocs, esDocTypes, st0)"
    and ph: "processPhases um range_keys esDocs esDocTypes conn tx st0 = (st, e)"
  shows "ReindexPrefix maxInPrefix um range_keys db conn prefix =
       exit_pass (logger st) (stats st) (Some (fst (Flush (indexer st)))) e"
proof -
  from prerequisites_Some [OF p] obtain lg1 r lg2 docs lg3 lg4 where
    b: "BeginTx db = Inr tx"
    and u: "createUuidsTable maxInPrefix [(DebugLevel, ''Indexing prefix %s'', [S prefix])] prefix tx =
       (lg1, r, None)"
    and g: "getSearchResults maxInPrefix um lg1 prefix conn =
      Returns (lg2, docs, esDocs, esDocTypes, None)"
    and cp: "createPermsTable lg2 tx = (lg3, None)"
    and cm: "createMetadataTable lg3 tx = (lg4, None)"
    and st0: "st0 = \<lparr>logger = lg4, stats = zeroRows\<lparr>rows := r, documents := docs\<rparr>,
            seenEsDocs = Map.empty, indexer = NewBulkIndexer conn 1000\<rparr>"
    by blast
  show ?thesis
    using ph unfolding st0 by (simp add: ReindexPrefix_def Let_def b u g cp cm)
qed

lemma catalog_too_many:
  assumes b: "BeginTx db = Inr tx"
    and c: "CreateTemporaryTable tx ''base_object_uuids'' = Inr r"
    and gt: "sint maxInPrefix < sint r"
  shows "createBaseUuidsTable maxInPrefix lg prefix tx = (lg, r, Some ErrTooManyResults)"
    and "createUuidsTable maxInPrefix lg prefix tx = (lg, 0, Some ErrTooManyResults)"
    and "ReindexPrefix maxInPrefix um range_keys db conn prefix =
           exit_pass [(DebugLevel, ''Indexing prefix %s'', [S prefix])] zeroRows None
             (Some ErrTooManyResults)"
proof -
  show 1: "createBaseUuidsTable maxInPrefix lg prefix tx = (lg, r, Some ErrTooManyResults)" for lg
    using c gt by (simp add: createBaseUuidsTable_def)
  show 2: "createUuidsTable maxInPrefix lg prefix tx = (lg, 0, Some ErrTooManyResults)" for lg
    by (simp add: createUuidsTable_def 1)
  have z: "zeroRows\<lparr>rows := 0\<rparr> = zeroRows" by (simp add: zeroRows_def)
  show "ReindexPrefix maxInPrefix um range_keys db conn prefix =
           exit_pass [(DebugLevel, ''Indexing prefix %s'', [S prefix])] zeroRows None
             (Some ErrTooManyResults)"
    by (simp add: ReindexPrefix_def Let_def b 2 z)
qed

text \<open>
  C3, at a catalog with 11 matching rows and a cap of 10. \<open>createBaseUuidsTable\<close>
  returns the count 11 with \<open>ErrTooManyResults\<close>, but \<open>createUuidsTable\<close> returns 0
  with the error, so \<open>ReindexPrefix\<close> records 0 rows and its summary line reports 0. The
  pass returns \<open>ErrTooManyResults\<close> and creates no bulk indexer.
\<close>

theorem createUuidsTable_drops_count:
  "createBaseUuidsTable 10 [] ''u'' big_tx = ([], 11, Some ErrTooManyResults) \<and>
   createUuidsTable 10 [] ''u'' big_tx = ([], 0, Some ErrTooManyResults) \<and>
   ReindexPrefix 10 example_unmarshal example_order \<lparr>BeginTx = Inr big_tx\<rparr> example_conn ''u'' =
     \<lparr>final_rows = zeroRows,
      final_log =
        [(DebugLevel, ''Indexing prefix %s'', [S ''u'']),
         (InfoLevel,
          ''Processed %d entries (%d rows, %d documents, processed %d data objects (+%d,U%d,-%d), %d colls (+%d,U%d,-%d)) in %s'',
          [D 0, D 0, D 0, D 0, D 0, D 0, D 0, D 0, D 0, D 0, D 0])],
      final_indexer = None, returned = Some ErrTooManyResults, panicked = False\<rparr>"
proof -
  have c: "CreateTemporaryTable big_tx ''base_object_uuids'' = Inr 11" by (simp add: big_tx_def)
  have gt: "sint (10 :: int64) < sint (11 :: int64)" by simp
  have l: "logTime [(DebugLevel, ''Indexing prefix %s'', [S ''u''])] zeroRows =
        [(DebugLevel, ''Indexing prefix %s'', [S ''u'']),
         (InfoLevel,
          ''Processed %d entries (%d rows, %d documents, processed %d data objects (+%d,U%d,-%d), %d colls (+%d,U%d,-%d)) in %s'',
          [D 0, D 0, D 0, D 0, D 0, D 0, D 0, D 0, D 0, D 0, D 0])]"
    by (simp add: logTime_def zeroRows_def)
  show ?thesis
    using catalog_too_many [where db = "\<lparr>BeginTx = Inr big_tx\<rparr>", OF _ c gt]
    by (simp add: exit_pass_def l)
qed

lemma createUuidsTable_rows_irrelevant:
  "createUuidsTable maxInPrefix lg prefix (tx\<lparr>GetDataObjects := ds, GetCollections := cs\<rparr>) =
     createUuidsTable maxInPrefix lg prefix tx"
  by (simp add: createUuidsTable_def createBaseUuidsTable_def split: sum.split)

lemma getSearchResults_too_many:
  assumes s: "Search (client conn) (index_name conn) prefix = Inr search"
    and gt: "sint maxInPrefix < sint (TotalHits search)"
  shows "getSearchResults maxInPrefix um lg prefix conn =
           Returns (lg @ [(DebugLevel, ''Got %d documents for prefix %s (ES)'',
                           [D (TotalHits search), S prefix])],
            TotalHits search, Map.empty, Map.empty, Some ErrTooManyResults)"
  using s gt by (simp add: getSearchResults_def Let_def)

text \<open>
  C4. When the search reports more hits than \<open>maxInPrefix\<close>, \<open>getSearchResults\<close>
  returns the reported total, empty maps and \<open>ErrTooManyResults\<close>. A pass that got that
  far returns the error with the total recorded in the statistics, no row processed
  and no indexer created, and its result is the same whatever rows the catalog holds
  for classification.
\<close>

theorem index_too_many:
  assumes s: "Search (client conn) (index_name conn) prefix = Inr search"
    and gt: "sint maxInPrefix < sint (TotalHits search)"
  shows "getSearchResults maxInPrefix um lg prefix conn =
           Returns (lg @ [(DebugLevel, ''Got %d documents for prefix %s (ES)'',
                           [D (TotalHits search), S prefix])],
            TotalHits search, Map.empty, Map.empty, Some ErrTooManyResults) \<and>
         (BeginTx db = Inr tx \<and>
          createUuidsTable maxInPrefix [(DebugLevel, ''Indexing prefix %s'', [S prefix])] prefix tx =
            (lgu, r, None) \<longrightarrow>
            ReindexPrefix maxInPrefix um range_keys db conn prefix =
              \<lparr>final_rows = zeroRows\<lparr>rows := r, documents := TotalHits search\<rparr>,
               final_log =
                 logTime (lgu @ [(DebugLevel, ''Got %d documents for prefix %s (ES)'',
                                  [D (TotalHits search), S prefix])])
                   (zeroRows\<lparr>rows := r, documents := TotalHits search\<rparr>),
               final_indexer = None, returned = Some ErrTooManyResults,
               panicked = False\<rparr> \<and>
            processed (final_rows (ReindexPrefix maxInPrefix um range_keys db conn prefix)) = 0 \<and>
            ReindexPrefix maxInPrefix um range_keys
                \<lparr>BeginTx = Inr (tx\<lparr>GetDataObjects := ds, GetCollections := cs\<rparr>)\<rparr> conn prefix =
              ReindexPrefix maxInPrefix um range_keys db conn prefix)"
proof (intro conjI impI)
  show "getSearchResults maxInPrefix um lg prefix conn =
           Returns (lg @ [(DebugLevel, ''Got %d documents for prefix %s (ES)'',
                           [D (TotalHits search), S prefix])],
            TotalHits search, Map.empty, Map.empty, Some ErrTooManyResults)"
    by (rule getSearchResults_too_many [OF s gt])
  assume a: "BeginTx db = Inr tx \<and>
          createUuidsTable maxInPrefix [(DebugLevel, ''Indexing prefix %s'', [S prefix])] prefix tx =
            (lgu, r, None)"
  then have b: "BeginTx db = Inr tx"
    and u: "createUuidsTable maxInPrefix [(DebugLevel, ''Indexing prefix %s'', [S prefix])] prefix tx =
            (lgu, r, None)" by simp_all
  show res: "ReindexPrefix maxInPrefix um range_keys db conn prefix =
              \<lparr>final_rows = zeroRows\<lparr>rows := r, documents := TotalHits search\<rparr>,
               final_log =
                 logTime (lgu @ [(DebugLevel, ''Got %d documents for prefix %s (ES)'',
                                  [D (TotalHits search), S prefix])])
                   (zeroRows\<lparr>rows := r, documents := TotalHits search\<rparr>),
               final_indexer = None, returned = Some ErrTooManyResults,
               panicked = False\<rparr>"
    by (simp add: ReindexPrefix_def Let_def b u getSearchResults_too_many [OF s gt] exit_pass_def)
  then show "processed (final_rows (ReindexPrefix maxInPrefix um range_keys db conn prefix)) = 0"
    by (simp add: zeroRows_def)
  show "ReindexPrefix maxInPrefix um range_keys
                \<lparr>BeginTx = Inr (tx\<lparr>GetDataObjects := ds, GetCollections := cs\<rparr>)\<rparr> conn prefix =
              ReindexPrefix maxInPrefix um range_keys db conn prefix"
    unfolding res
    by (simp add: ReindexPrefix_def Let_def createUuidsTable_rows_irrelevant u
        getSearchResults_too_many [OF s gt] exit_pass_def)
qed

theorem index_too_many_witness:
  "Search (client example_conn) (index_name example_conn) ''u'' = Inr \<lparr>TotalHits = 3, Hits =
         [\<lparr>hit_Id = ''u2'', hit_Type = ''file'', hit_Source = Some ''B''\<rparr>,
          \<lparr>hit_Id = ''u9'', hit_Type = ''file'', hit_Source = Some ''not json''\<rparr>,
          \<lparr>hit_Id = ''u3'', hit_Type = ''folder'', hit_Source = Some ''A''\<rparr>]\<rparr> \<and>
   sint (2 :: int64) < sint (3 :: int64) \<and>
   BeginTx example_db = Inr example_tx \<and>
   getSearchResults 2 example_unmarshal [] ''u'' example_conn =
     Returns ([(DebugLevel, ''Got %d documents for prefix %s (ES)'', [D 3, S ''u''])], 3,
       Map.empty, Map.empty, Some ErrTooManyResults) \<and>
   returned (ReindexPrefix 2 example_unmarshal example_order example_db example_conn ''u'') =
     Some ErrTooManyResults \<and>
   final_indexer (ReindexPrefix 2 example_unmarshal example_order example_db example_conn ''u'') =
     None \<and>
   documents (final_rows (ReindexPrefix 2 example_unmarshal example_order example_db example_conn
     ''u'')) = 3 \<and>
   processed (final_rows (ReindexPrefix 2 example_unmarshal example_order example_db example_conn
     ''u'')) = 0"
proof -
  let ?search = "\<lparr>TotalHits = 3 :: int64, Hits =
         [\<lparr>hit_Id = ''u2'', hit_Type = ''file'', hit_Source = Some ''B''\<rparr>,
          \<lparr>hit_Id = ''u9'', hit_Type = ''file'', hit_Source = Some ''not json''\<rparr>,
          \<lparr>hit_Id = ''u3'', hit_Type = ''folder'', hit_Source = Some ''A''\<rparr>]\<rparr>"
  have s: "Search (client example_conn) (index_name example_conn) ''u'' = Inr ?search"
    by (simp add: example_defs)
  have gt: "sint (2 :: int64) < sint (TotalHits ?search)" by simp
  have b: "BeginTx example_db = Inr example_tx" by (simp add: example_db_def)
  have u: "createUuidsTable 2 [(DebugLevel, ''Indexing prefix %s'', [S ''u''])] ''u'' example_tx =
      ([(DebugLevel, ''Indexing prefix %s'', [S ''u'']),
        (DebugLevel,
         ''Got %d rows for prefix %s (note that this may include stale unused metadata)'',
         [D 2, S ''u''])], 2, None)"
    by (simp add: createUuidsTable_def createBaseUuidsTable_def example_tx_def)
  show ?thesis
    using index_too_many [OF s gt, where um = example_unmarshal and lg = "[]" and db = example_db
        and tx = example_tx and range_keys = example_order and r = 2
        and lgu = "[(DebugLevel, ''Indexing prefix %s'', [S ''u'']),
          (DebugLevel,
           ''Got %d rows for prefix %s (note that this may include stale unused metadata)'',
           [D 2, S ''u''])]"] s b u
    by (simp add: zeroRows_def)
qed

lemma example_search_any_log:
  "getSearchResults 10 example_unmarshal lg ''u'' example_conn =
     Returns (lg @ [(DebugLevel, ''Got %d documents for prefix %s (ES)'', [D 3, S ''u''])], 3,
      example_esDocs, example_esDocTypes, None)"
  by (simp add: getSearchResults_def example_defs example_unmarshal_def example_esDocs_def
      example_esDocTypes_def)

lemma example_prerequisites:
  "prerequisites 10 example_unmarshal example_db example_conn ''u'' =
     Some (example_tx, example_esDocs, example_esDocTypes, example_start)"
  by (simp add: prerequisites_def example_db_def example_tx_def createUuidsTable_def
      createBaseUuidsTable_def example_search_any_log createPermsTable_def
      createMetadataTable_def example_start_def)

lemmas row_defs = dataobject_row_def collection_row_def classify_def index_def

lemma example_dataobjects:
  "processDataobjects example_unmarshal example_esDocs example_conn example_tx
     \<lparr>logger = lg, stats = rs, seenEsDocs = Map.empty, indexer = NewBulkIndexer example_conn 1000\<rparr> =
   (\<lparr>logger = lg @ [(DebugLevel, ''data-object %s not in ES, indexing'', [S ''u1''])],
     stats = rs\<lparr>dataobjectsAdded := dataobjectsAdded rs + 1, processed := processed rs + 1,
              dataobjects := dataobjects rs + 1\<rparr>,
     seenEsDocs = [''u1'' \<mapsto> True, ''u2'' \<mapsto> True],
     indexer = (NewBulkIndexer example_conn 1000)
        \<lparr>buffer := [BulkIndexRequest ''data'' ''file'' ''u1'' ''A'']\<rparr>\<rparr>,
    Some bad_json)"
  by (simp add: processDataobjects_def example_tx_def row_defs example_esDocs_def
      example_unmarshal_def Add_def NewBulkIndexer_def esutils_NewBulkIndexer_def example_conn_def)

lemma classify_undecodable:
  "esDocs ident = Some indexed \<Longrightarrow> um jsonstr = Inl err \<Longrightarrow>
     classify um ident jsonstr esDocs = (NoAction, Some err)"
  by (simp add: classify_def)

lemma dataobject_row_undecodable:
  "esDocs ident = Some indexed \<Longrightarrow> um jsonstr = Inl err \<Longrightarrow>
     dataobject_row um esDocs conn (Inr (ident, jsonstr)) st =
       (st\<lparr>seenEsDocs := (seenEsDocs st)(ident \<mapsto> True)\<rparr>, Some err)"
  by (simp add: dataobject_row_def classify_undecodable)

lemma collection_row_undecodable:
  "esDocs ident = Some indexed \<Longrightarrow> um jsonstr = Inl err \<Longrightarrow>
     collection_row um esDocs conn (Inr (ident, jsonstr)) st =
       (st\<lparr>seenEsDocs := (seenEsDocs st)(ident \<mapsto> True)\<rparr>, Some err)"
  by (simp add: collection_row_def classify_undecodable)

text \<open>
  C7. For an id of the snapshot whose projected JSON does not decode, \<open>classify\<close>
  returns the decoder's error. Both processing loops stop at such a row and return the
  error, with the id marked seen and nothing else changed; the rows after it are not
  visited. In a pass, \<open>processDataobjects\<close> returns the state reached by the rows before
  it, and \<open>ReindexPrefix\<close> returns the error with the statistics of that state. The
  same holds for a folder row: once the data objects are done, \<open>processCollections\<close>
  returns the state reached by the folder rows before it, and \<open>ReindexPrefix\<close> returns
  the error with the statistics of that state.
\<close>

theorem undecodable_projection_is_fatal:
  assumes k: "esDocs ident = Some indexed" and bad: "um jsonstr = Inl err"
  shows "classify um ident jsonstr esDocs = (NoAction, Some err) \<and>
     for_each (dataobject_row um esDocs conn) (Inr (ident, jsonstr) # later) st =
       (st\<lparr>seenEsDocs := (seenEsDocs st)(ident \<mapsto> True)\<rparr>, Some err) \<and>
     for_each (collection_row um esDocs conn) (Inr (ident, jsonstr) # later) st =
       (st\<lparr>seenEsDocs := (seenEsDocs st)(ident \<mapsto> True)\<rparr>, Some err) \<and>
     (prerequisites maxInPrefix um db conn prefix = Some (tx, esDocs, esDocTypes, start) \<and>
      GetDataObjects tx = Inr (earlier @ Inr (ident, jsonstr) # later) \<and>
      for_each (dataobject_row um esDocs conn) earlier start = (reached, None) \<longrightarrow>
        processDataobjects um esDocs conn tx start =
          (reached\<lparr>seenEsDocs := (seenEsDocs reached)(ident \<mapsto> True)\<rparr>, Some err) \<and>
        ReindexPrefix maxInPrefix um range_keys db conn prefix =
          exit_pass (logger reached) (stats reached) (Some (fst (Flush (indexer reached))))
            (Some err)) \<and>
     (prerequisites maxInPrefix um db conn prefix = Some (tx, esDocs, esDocTypes, start) \<and>
      processDataobjects um esDocs conn tx start = (files_done, None) \<and>
      GetCollections tx = Inr (folders_before @ Inr (ident, jsonstr) # folders_after) \<and>
      for_each (collection_row um esDocs conn) folders_before files_done =
        (folders_reached, None) \<longrightarrow>
        processCollections um esDocs conn tx files_done =
          (folders_reached\<lparr>seenEsDocs := (seenEsDocs folders_reached)(ident \<mapsto> True)\<rparr>,
           Some err) \<and>
        ReindexPrefix maxInPrefix um range_keys db conn prefix =
          exit_pass (logger folders_reached) (stats folders_reached)
            (Some (fst (Flush (indexer folders_reached)))) (Some err))"
proof (intro conjI impI)
  show "classify um ident jsonstr esDocs = (NoAction, Some err)"
    using k bad by (rule classify_undecodable)
  show d: "for_each (dataobject_row um esDocs conn) (Inr (ident, jsonstr) # later) st =
       (st\<lparr>seenEsDocs := (seenEsDocs st)(ident \<mapsto> True)\<rparr>, Some err)" for st
    using k bad by (simp add: dataobject_row_undecodable)
  show "for_each (collection_row um esDocs conn) (Inr (ident, jsonstr) # later) st =
       (st\<lparr>seenEsDocs := (seenEsDocs st)(ident \<mapsto> True)\<rparr>, Some err)"
    using k bad by (simp add: collection_row_undecodable)
  assume a: "prerequisites maxInPrefix um db conn prefix = Some (tx, esDocs, esDocTypes, start) \<and>
      GetDataObjects tx = Inr (earlier @ Inr (ident, jsonstr) # later) \<and>
      for_each (dataobject_row um esDocs conn) earlier start = (reached, None)"
  then have p: "prerequisites maxInPrefix um db conn prefix = Some (tx, esDocs, esDocTypes, start)"
    and g: "GetDataObjects tx = Inr (earlier @ Inr (ident, jsonstr) # later)"
    and e: "for_each (dataobject_row um esDocs conn) earlier start = (reached, None)"
    by simp_all
  show pd: "processDataobjects um esDocs conn tx start =
          (reached\<lparr>seenEsDocs := (seenEsDocs reached)(ident \<mapsto> True)\<rparr>, Some err)"
    by (simp add: processDataobjects_def g for_each_append e d del: for_each.simps)
  have ph: "processPhases um range_keys esDocs esDocTypes conn tx start =
          (reached\<lparr>seenEsDocs := (seenEsDocs reached)(ident \<mapsto> True)\<rparr>, Some err)"
    by (simp add: processPhases_def pd)
  show "ReindexPrefix maxInPrefix um range_keys db conn prefix =
          exit_pass (logger reached) (stats reached) (Some (fst (Flush (indexer reached))))
            (Some err)"
    using ReindexPrefix_prerequisites [OF p ph] by simp
next
  assume a: "prerequisites maxInPrefix um db conn prefix = Some (tx, esDocs, esDocTypes, start) \<and>
      processDataobjects um esDocs conn tx start = (files_done, None) \<and>
      GetCollections tx = Inr (folders_before @ Inr (ident, jsonstr) # folders_after) \<and>
      for_each (collection_row um esDocs conn) folders_before files_done =
        (folders_reached, None)"
  then have p: "prerequisites maxInPrefix um db conn prefix = Some (tx, esDocs, esDocTypes, start)"
    and pd: "processDataobjects um esDocs conn tx start = (files_done, None)"
    and g: "GetCollections tx = Inr (folders_before @ Inr (ident, jsonstr) # folders_after)"
    and e: "for_each (collection_row um esDocs conn) folders_before files_done =
        (folders_reached, None)"
    by simp_all
  have c: "for_each (collection_row um esDocs conn) (Inr (ident, jsonstr) # folders_after)
        folders_reached =
       (folders_reached\<lparr>seenEsDocs := (seenEsDocs folders_reached)(ident \<mapsto> True)\<rparr>,
        Some err)"
    using k bad by (simp add: collection_row_undecodable)
  show pc: "processCollections um esDocs conn tx files_done =
          (folders_reached\<lparr>seenEsDocs := (seenEsDocs folders_reached)(ident \<mapsto> True)\<rparr>,
           Some err)"
    by (simp add: processCollections_def g for_each_append e c del: for_each.simps)
  have ph: "processPhases um range_keys esDocs esDocTypes conn tx start =
          (folders_reached\<lparr>seenEsDocs := (seenEsDocs folders_reached)(ident \<mapsto> True)\<rparr>,
           Some err)"
    by (simp add: processPhases_def pd pc)
  show "ReindexPrefix maxInPrefix um range_keys db conn prefix =
          exit_pass (logger folders_reached) (stats folders_reached)
            (Some (fst (Flush (indexer folders_reached)))) (Some err)"
    using ReindexPrefix_prerequisites [OF p ph] by simp
qed

theorem undecodable_projection_is_fatal_witness:
  "example_esDocs ''u2'' = Some (doc_a\<lparr>DateModified := 90\<rparr>) \<and>
   example_unmarshal ''not json'' = Inl bad_json \<and>
   GetDataObjects example_tx =
     Inr ([Inr (''u1'', ''A'')] @ Inr (''u2'', ''not json'') # [Inr (''u4'', ''A'')]) \<and>
   classify example_unmarshal ''u2'' ''not json'' example_esDocs = (NoAction, Some bad_json) \<and>
   returned (ReindexPrefix 10 example_unmarshal example_order example_db example_conn ''u'') =
     Some bad_json \<and>
   processed (final_rows (ReindexPrefix 10 example_unmarshal example_order example_db example_conn
     ''u'')) = 1 \<and>
   example_esDocs ''u3'' = Some doc_a \<and>
   GetCollections folder_tx =
     Inr ([Inr (''u7'', ''A'')] @ Inr (''u3'', ''not json'') # [Inr (''u8'', ''A'')]) \<and>
   returned (ReindexPrefix 10 example_unmarshal example_order folder_db example_conn ''u'') =
     Some bad_json \<and>
   \<not> panicked (ReindexPrefix 10 example_unmarshal example_order folder_db example_conn ''u'') \<and>
   colls (final_rows (ReindexPrefix 10 example_unmarshal example_order folder_db example_conn
     ''u'')) = 1 \<and>
   processed (final_rows (ReindexPrefix 10 example_unmarshal example_order folder_db example_conn
     ''u'')) = 2"
proof -
  let ?reached = "\<lparr>logger = logger example_start @
                       [(DebugLevel, ''data-object %s not in ES, indexing'', [S ''u1''])],
     stats = zeroRows\<lparr>rows := 2, documents := 3, dataobjectsAdded := 1, processed := 1,
              dataobjects := 1\<rparr>,
     seenEsDocs = [''u1'' \<mapsto> True],
     indexer = (NewBulkIndexer example_conn 1000)
        \<lparr>buffer := [BulkIndexRequest ''data'' ''file'' ''u1'' ''A'']\<rparr>\<rparr>"
  have k: "example_esDocs ''u2'' = Some (doc_a\<lparr>DateModified := 90\<rparr>)"
    by (simp add: example_esDocs_def)
  have bad: "example_unmarshal ''not json'' = Inl bad_json"
    by (simp add: example_unmarshal_def)
  have g: "GetDataObjects example_tx =
     Inr ([Inr (''u1'', ''A'')] @ Inr (''u2'', ''not json'') # [Inr (''u4'', ''A'')])"
    by (simp add: example_tx_def)
  have e: "for_each (dataobject_row example_unmarshal example_esDocs example_conn)
      [Inr (''u1'', ''A'')] example_start = (?reached, None)"
    by (simp add: row_defs example_esDocs_def example_unmarshal_def Add_def NewBulkIndexer_def
        esutils_NewBulkIndexer_def example_conn_def zeroRows_def example_start_def)
  have files: "returned (ReindexPrefix 10 example_unmarshal example_order example_db example_conn
        ''u'') = Some bad_json \<and>
      processed (final_rows (ReindexPrefix 10 example_unmarshal example_order example_db
        example_conn ''u'')) = 1 \<and>
      classify example_unmarshal ''u2'' ''not json'' example_esDocs = (NoAction, Some bad_json)"
    using undecodable_projection_is_fatal [where um = example_unmarshal
        and esDocs = example_esDocs and ident = "''u2''" and jsonstr = "''not json''"
        and indexed = "doc_a\<lparr>DateModified := 90\<rparr>" and err = bad_json
        and maxInPrefix = 10 and db = example_db
        and conn = example_conn and prefix = "''u''" and tx = example_tx
        and esDocTypes = example_esDocTypes and start = example_start and reached = ?reached
        and earlier = "[Inr (''u1'', ''A'')]" and later = "[Inr (''u4'', ''A'')]"
        and range_keys = example_order]
      k bad g e example_prerequisites
    by (simp add: exit_pass_def zeroRows_def)
  let ?files_done = "fst (processDataobjects example_unmarshal example_esDocs example_conn
      folder_tx example_start)"
  let ?folders_reached = "fst (for_each (collection_row example_unmarshal example_esDocs
      example_conn) [Inr (''u7'', ''A'')] ?files_done)"
  have k3: "example_esDocs ''u3'' = Some doc_a"
    by (simp add: example_esDocs_def)
  have gc: "GetCollections folder_tx =
     Inr ([Inr (''u7'', ''A'')] @ Inr (''u3'', ''not json'') # [Inr (''u8'', ''A'')])"
    by (simp add: folder_tx_def)
  have fd: "snd (processDataobjects example_unmarshal example_esDocs example_conn folder_tx
      example_start) = None"
    "stats ?files_done = zeroRows\<lparr>rows := 2, documents := 3, dataobjectsAdded := 1,
       processed := 1, dataobjects := 1\<rparr>"
    "indexer ?files_done = (NewBulkIndexer example_conn 1000)\<lparr>buffer := [index_u1]\<rparr>"
    by (simp_all add: processDataobjects_def folder_tx_def row_defs example_esDocs_def
        example_unmarshal_def Add_def NewBulkIndexer_def esutils_NewBulkIndexer_def
        example_conn_def zeroRows_def example_start_def index_u1_def)
  have pd: "processDataobjects example_unmarshal example_esDocs example_conn folder_tx
      example_start = (?files_done, None)"
    using fd(1) by (simp add: prod_eq_iff)
  have k7: "example_esDocs ''u7'' = None"
    by (simp add: example_esDocs_def)
  have fr: "snd (for_each (collection_row example_unmarshal example_esDocs example_conn)
      [Inr (''u7'', ''A'')] ?files_done) = None"
    "stats ?folders_reached = zeroRows\<lparr>rows := 2, documents := 3, dataobjectsAdded := 1,
       processed := 2, dataobjects := 1, collsAdded := 1, colls := 1\<rparr>"
    using k7
    by (simp_all add: row_defs example_unmarshal_def Add_def Let_def fd
        NewBulkIndexer_def esutils_NewBulkIndexer_def zeroRows_def)
  have ec: "for_each (collection_row example_unmarshal example_esDocs example_conn)
      [Inr (''u7'', ''A'')] ?files_done = (?folders_reached, None)"
    using fr(1) by (simp add: prod_eq_iff)
  have pf: "prerequisites 10 example_unmarshal folder_db example_conn ''u'' =
     Some (folder_tx, example_esDocs, example_esDocTypes, example_start)"
    by (simp add: prerequisites_def folder_db_def folder_tx_def createUuidsTable_def
        createBaseUuidsTable_def example_search_any_log createPermsTable_def
        createMetadataTable_def example_start_def)
  have folders: "returned (ReindexPrefix 10 example_unmarshal example_order folder_db example_conn
        ''u'') = Some bad_json \<and>
      \<not> panicked (ReindexPrefix 10 example_unmarshal example_order folder_db example_conn
        ''u'') \<and>
      colls (final_rows (ReindexPrefix 10 example_unmarshal example_order folder_db example_conn
        ''u'')) = 1 \<and>
      processed (final_rows (ReindexPrefix 10 example_unmarshal example_order folder_db
        example_conn ''u'')) = 2"
    using undecodable_projection_is_fatal [where um = example_unmarshal
        and esDocs = example_esDocs and ident = "''u3''" and jsonstr = "''not json''"
        and indexed = doc_a and err = bad_json
        and maxInPrefix = 10 and db = folder_db
        and conn = example_conn and prefix = "''u''" and tx = folder_tx
        and esDocTypes = example_esDocTypes and start = example_start
        and files_done = ?files_done and folders_reached = ?folders_reached
        and folders_before = "[Inr (''u7'', ''A'')]" and folders_after = "[Inr (''u8'', ''A'')]"
        and range_keys = example_order]
      k3 bad gc pd ec pf
    by (simp add: exit_pass_def fr(2) zeroRows_def del: for_each.simps)
  from files folders k bad g k3 gc show ?thesis by simp
qed

lemma bulkSize_Flush: "bulkSize (fst (Flush ix)) = bulkSize ix"
  by (simp add: Flush_def split: option.splits)

lemma bulkSize_Add: "bulkSize (fst (Add ix req)) = bulkSize ix"
  by (simp add: Add_def Let_def bulkSize_Flush)

lemma attempts_Flush: "attempts (fst (Flush ix)) = attempts ix @ [(buffer ix, snd (Flush ix))]"
  by (simp add: Flush_def split: option.splits)

lemma buffer_Flush: "snd (Flush ix) = None \<Longrightarrow> buffer (fst (Flush ix)) = []"
  by (simp add: Flush_def split: option.splits)

lemma Add_below:
  "int (length (buffer ix)) + 1 < bulkSize ix \<Longrightarrow>
     Add ix req = (ix\<lparr>buffer := buffer ix @ [req]\<rparr>, None)"
  by (simp add: Add_def Let_def)

lemma Add_reaches:
  "bulkSize ix \<le> int (length (buffer ix)) + 1 \<Longrightarrow>
     Add ix req = Flush (ix\<lparr>buffer := buffer ix @ [req]\<rparr>)"
  by (simp add: Add_def Let_def)

lemma Add_keeps_below:
  assumes "snd (Add ix req) = None" and "0 < bulkSize ix"
  shows "int (length (buffer (fst (Add ix req)))) < bulkSize ix"
proof (cases "bulkSize ix \<le> int (length (buffer ix)) + 1")
  case True
  with assms show ?thesis
    using buffer_Flush [of "ix\<lparr>buffer := buffer ix @ [req]\<rparr>"] by (simp add: Add_reaches)
next
  case False
  then show ?thesis by (simp add: Add_below)
qed

lemma finishUp_indexer:
  "indexer (fst (finishUp st)) =
     (if buffer (indexer st) = [] then indexer st else fst (Flush (indexer st)))"
  by (simp add: finishUp_def CanFlush_def split: prod.splits option.splits)

lemma prerequisites_indexer:
  assumes p: "prerequisites maxInPrefix um db conn prefix = Some (tx, esDocs, esDocTypes, start)"
  shows "indexer start = NewBulkIndexer conn 1000"
  using prerequisites_Some [OF p] by auto

text \<open>
  C8. \<open>Add\<close> flushes exactly when the request brings the buffer to the batch size, so
  after a successful \<open>Add\<close> the buffer is below the batch size; the pass creates its
  indexer empty with batch size 1000. \<open>finishUp\<close> makes one more flush attempt when
  the buffer is not empty and none otherwise, and a pass whose three phases succeed
  ends with \<open>finishUp\<close>. Once the indexer exists, whatever the phases return, the
  pass returns that error, without a panic, and makes one last flush attempt of what is
  buffered (the deferred flush).
\<close>

theorem bulk_flush_discipline:
  "(bulkSize ix \<le> int (length (buffer ix)) + 1 \<longrightarrow>
      Add ix req = Flush (ix\<lparr>buffer := buffer ix @ [req]\<rparr>)) \<and>
   (int (length (buffer ix)) + 1 < bulkSize ix \<longrightarrow>
      Add ix req = (ix\<lparr>buffer := buffer ix @ [req]\<rparr>, None)) \<and>
   (snd (Add ix req) = None \<and> 0 < bulkSize ix \<longrightarrow>
      int (length (buffer (fst (Add ix req)))) < bulkSize ix) \<and>
   bulkSize (fst (Add ix req)) = bulkSize ix \<and>
   attempts (fst (Flush ix)) = attempts ix @ [(buffer ix, snd (Flush ix))] \<and>
   (snd (Flush ix) = None \<longrightarrow> buffer (fst (Flush ix)) = []) \<and>
   attempts (indexer (fst (finishUp st))) =
     (if buffer (indexer st) = [] then attempts (indexer st)
      else attempts (indexer st) @ [(buffer (indexer st), snd (Flush (indexer st)))]) \<and>
   (prerequisites maxInPrefix um db conn prefix = Some (tx, esDocs, esDocTypes, start) \<longrightarrow>
      indexer start =
        \<lparr>bulk_client = client conn, bulkSize = 1000, buffer = [], attempts = []\<rparr> \<and>
      (processDataobjects um esDocs conn tx start = (sa, None) \<and>
       processCollections um esDocs conn tx sa = (sb, None) \<and>
       processDeletions range_keys esDocs esDocTypes conn sb = (sc, None) \<longrightarrow>
         processPhases um range_keys esDocs esDocTypes conn tx start = finishUp sc) \<and>
      (processPhases um range_keys esDocs esDocTypes conn tx start = (final, e) \<longrightarrow>
         returned (ReindexPrefix maxInPrefix um range_keys db conn prefix) = e \<and>
         \<not> panicked (ReindexPrefix maxInPrefix um range_keys db conn prefix) \<and>
         final_indexer (ReindexPrefix maxInPrefix um range_keys db conn prefix) =
           Some (fst (Flush (indexer final))) \<and>
         attempts (fst (Flush (indexer final))) =
           attempts (indexer final) @ [(buffer (indexer final), snd (Flush (indexer final)))]))"
proof (intro conjI impI)
  show "Add ix req = Flush (ix\<lparr>buffer := buffer ix @ [req]\<rparr>)"
    if "bulkSize ix \<le> int (length (buffer ix)) + 1"
    using that by (rule Add_reaches)
  show "Add ix req = (ix\<lparr>buffer := buffer ix @ [req]\<rparr>, None)"
    if "int (length (buffer ix)) + 1 < bulkSize ix"
    using that by (rule Add_below)
  show "int (length (buffer (fst (Add ix req)))) < bulkSize ix"
    if "snd (Add ix req) = None \<and> 0 < bulkSize ix"
    using that Add_keeps_below by blast
  show "bulkSize (fst (Add ix req)) = bulkSize ix" by (rule bulkSize_Add)
  show "attempts (fst (Flush ix)) = attempts ix @ [(buffer ix, snd (Flush ix))]"
    by (rule attempts_Flush)
  show "buffer (fst (Flush ix)) = []" if "snd (Flush ix) = None"
    using that by (rule buffer_Flush)
  show "attempts (indexer (fst (finishUp st))) =
     (if buffer (indexer st) = [] then attempts (indexer st)
      else attempts (indexer st) @ [(buffer (indexer st), snd (Flush (indexer st)))])"
    by (simp add: finishUp_indexer attempts_Flush)
next
  assume p: "prerequisites maxInPrefix um db conn prefix = Some (tx, esDocs, esDocTypes, start)"
  show "indexer start = \<lparr>bulk_client = client conn, bulkSize = 1000, buffer = [], attempts = []\<rparr>"
    using prerequisites_indexer [OF p]
    by (simp add: NewBulkIndexer_def esutils_NewBulkIndexer_def)
next
  assume "processDataobjects um esDocs conn tx start = (sa, None) \<and>
       processCollections um esDocs conn tx sa = (sb, None) \<and>
       processDeletions range_keys esDocs esDocTypes conn sb = (sc, None)"
  then show "processPhases um range_keys esDocs esDocTypes conn tx start = finishUp sc"
    by (simp add: processPhases_def)
next
  assume p: "prerequisites maxInPrefix um db conn prefix = Some (tx, esDocs, esDocTypes, start)"
    and ph: "processPhases um range_keys esDocs esDocTypes conn tx start = (final, e)"
  note r = ReindexPrefix_prerequisites [OF p ph]
  show "returned (ReindexPrefix maxInPrefix um range_keys db conn prefix) = e"
    by (simp add: r exit_pass_def)
  show "\<not> panicked (ReindexPrefix maxInPrefix um range_keys db conn prefix)"
    by (simp add: r exit_pass_def)
  show "final_indexer (ReindexPrefix maxInPrefix um range_keys db conn prefix) =
           Some (fst (Flush (indexer final)))"
    by (simp add: r exit_pass_def)
  show "attempts (fst (Flush (indexer final))) =
           attempts (indexer final) @ [(buffer (indexer final), snd (Flush (indexer final)))]"
    by (rule attempts_Flush)
qed

lemma quiet_prerequisites:
  "prerequisites 10 example_unmarshal quiet_db example_conn ''u'' =
     Some (quiet_tx, example_esDocs, example_esDocTypes, example_start)"
  by (simp add: prerequisites_def quiet_db_def quiet_tx_def createUuidsTable_def
      createBaseUuidsTable_def example_search_any_log createPermsTable_def
      createMetadataTable_def example_start_def)

lemmas indexer_defs = Add_def Flush_def CanFlush_def NewBulkIndexer_def esutils_NewBulkIndexer_def

lemma quiet_dataobjects:
  "snd (processDataobjects example_unmarshal example_esDocs example_conn quiet_tx example_start)
     = None"
  "indexer (fst (processDataobjects example_unmarshal example_esDocs example_conn quiet_tx
      example_start)) = (NewBulkIndexer example_conn 1000)\<lparr>buffer := [index_u1, index_u2]\<rparr>"
  "seenEsDocs (fst (processDataobjects example_unmarshal example_esDocs example_conn quiet_tx
      example_start)) = [''u1'' \<mapsto> True, ''u2'' \<mapsto> True]"
  by (simp_all add: processDataobjects_def quiet_tx_def row_defs example_esDocs_def
      example_unmarshal_def indexer_defs example_conn_def example_start_def Equal_iff doc_a_def
      index_u1_def index_u2_def)

lemma quiet_collections:
  "processCollections example_unmarshal example_esDocs example_conn quiet_tx st =
     (st\<lparr>logger := logger st @
          [(DebugLevel, ''%d collections missing, %d collections to update'',
            [D (collsAdded (stats st)), D (collsUpdated (stats st))])]\<rparr>, None)"
  by (simp add: processCollections_def quiet_tx_def)

lemma quiet_deletions:
  assumes "indexer st = (NewBulkIndexer example_conn 1000)\<lparr>buffer := [index_u1, index_u2]\<rparr>"
    and "seenEsDocs st = [''u1'' \<mapsto> True, ''u2'' \<mapsto> True]"
  shows "snd (processDeletions snapshot_order example_esDocs example_esDocTypes example_conn st)
      = None"
    and "indexer (fst (processDeletions snapshot_order example_esDocs example_esDocTypes
      example_conn st)) =
        (NewBulkIndexer example_conn 1000)\<lparr>buffer := [index_u1, index_u2, delete_u3]\<rparr>"
  using assms
  by (simp_all add: processDeletions_def deletion_step_def snapshot_order_def seen_def
      example_esDocTypes_def delete_req_def indexer_defs example_conn_def delete_u3_def
      split: prod.splits)

lemma NewBulkIndexer_fields:
  "bulk_client (NewBulkIndexer conn n) = client conn"
  "bulkSize (NewBulkIndexer conn n) = n"
  "buffer (NewBulkIndexer conn n) = []"
  "attempts (NewBulkIndexer conn n) = []"
  by (simp_all add: NewBulkIndexer_def esutils_NewBulkIndexer_def)

lemma example_Flush:
  "bulk_client ix = client example_conn \<Longrightarrow>
     Flush ix = (ix\<lparr>attempts := attempts ix @ [(buffer ix, None)], buffer := []\<rparr>, None)"
  by (simp add: Flush_def example_conn_def example_client_def)

theorem bulk_flush_discipline_witness:
  "attempts (fst (Add (NewBulkIndexer example_conn 1) index_u1)) = [([index_u1], None)] \<and>
   buffer (fst (Add (NewBulkIndexer example_conn 1) index_u1)) = [] \<and>
   Add (NewBulkIndexer example_conn 1000) index_u1 =
     ((NewBulkIndexer example_conn 1000)\<lparr>buffer := [index_u1]\<rparr>, None) \<and>
   returned (ReindexPrefix 10 example_unmarshal snapshot_order quiet_db example_conn ''u'') = None \<and>
   map_option attempts
     (final_indexer (ReindexPrefix 10 example_unmarshal snapshot_order quiet_db example_conn ''u''))
     = Some [([index_u1, index_u2, delete_u3], None), ([], None)] \<and>
   returned (ReindexPrefix 10 example_unmarshal example_order example_db example_conn ''u'') =
     Some bad_json \<and>
   map_option attempts
     (final_indexer (ReindexPrefix 10 example_unmarshal example_order example_db example_conn ''u''))
     = Some [([index_u1], None)]"
proof -
  let ?sa = "fst (processDataobjects example_unmarshal example_esDocs example_conn quiet_tx
      example_start)"
  let ?sb = "?sa\<lparr>logger := logger ?sa @
          [(DebugLevel, ''%d collections missing, %d collections to update'',
            [D (collsAdded (stats ?sa)), D (collsUpdated (stats ?sa))])]\<rparr>"
  let ?sc = "fst (processDeletions snapshot_order example_esDocs example_esDocTypes example_conn ?sb)"
  let ?ix = "(NewBulkIndexer example_conn 1000)\<lparr>buffer := [index_u1, index_u2, delete_u3]\<rparr>"
  have pd: "processDataobjects example_unmarshal example_esDocs example_conn quiet_tx example_start
      = (?sa, None)"
    using quiet_dataobjects(1) by (simp add: prod_eq_iff)
  have pc: "processCollections example_unmarshal example_esDocs example_conn quiet_tx ?sa
      = (?sb, None)"
    by (rule quiet_collections)
  have sb: "indexer ?sb = (NewBulkIndexer example_conn 1000)\<lparr>buffer := [index_u1, index_u2]\<rparr>"
    "seenEsDocs ?sb = [''u1'' \<mapsto> True, ''u2'' \<mapsto> True]"
    by (simp_all add: quiet_dataobjects)
  have del: "processDeletions snapshot_order example_esDocs example_esDocTypes example_conn ?sb
      = (?sc, None)"
    using quiet_deletions(1) [OF sb] by (simp add: prod_eq_iff)
  have sc: "indexer ?sc = ?ix"
    by (rule quiet_deletions(2) [OF sb])
  have fl: "Flush ?ix = (?ix\<lparr>attempts := [([index_u1, index_u2, delete_u3], None)], buffer := []\<rparr>,
      None)"
    by (simp add: example_Flush NewBulkIndexer_fields)
  have fu: "finishUp ?sc =
      (?sc\<lparr>indexer := ?ix\<lparr>attempts := [([index_u1, index_u2, delete_u3], None)], buffer := []\<rparr>\<rparr>,
       None)"
    by (simp add: finishUp_def sc fl CanFlush_def)
  note quiet = bulk_flush_discipline [where maxInPrefix = 10 and um = example_unmarshal
      and db = quiet_db and conn = example_conn and prefix = "''u''" and tx = quiet_tx
      and esDocs = example_esDocs and esDocTypes = example_esDocTypes and start = example_start
      and range_keys = snapshot_order and sa = ?sa and sb = ?sb and sc = ?sc
      and final = "fst (finishUp ?sc)" and e = None
      and ix = "NewBulkIndexer example_conn 1" and req = index_u1 and st = ?sc]
  have ph: "processPhases example_unmarshal snapshot_order example_esDocs example_esDocTypes
      example_conn quiet_tx example_start = finishUp ?sc"
    using quiet quiet_prerequisites pd pc del by simp
  have q: "returned (ReindexPrefix 10 example_unmarshal snapshot_order quiet_db example_conn ''u'')
        = None \<and>
      map_option attempts (final_indexer
        (ReindexPrefix 10 example_unmarshal snapshot_order quiet_db example_conn ''u''))
        = Some [([index_u1, index_u2, delete_u3], None), ([], None)]"
    using quiet quiet_prerequisites
    by (simp add: ph fu sc example_Flush NewBulkIndexer_fields)
  have a1: "attempts (fst (Add (NewBulkIndexer example_conn 1) index_u1)) = [([index_u1], None)] \<and>
      buffer (fst (Add (NewBulkIndexer example_conn 1) index_u1)) = []"
    using bulk_flush_discipline [where ix = "NewBulkIndexer example_conn 1" and req = index_u1]
    by (simp add: indexer_defs example_conn_def example_client_def)
  have a2: "Add (NewBulkIndexer example_conn 1000) index_u1 =
      ((NewBulkIndexer example_conn 1000)\<lparr>buffer := [index_u1]\<rparr>, None)"
    using bulk_flush_discipline [where ix = "NewBulkIndexer example_conn 1000" and req = index_u1]
    by (simp add: indexer_defs)
  have ed: "processDataobjects example_unmarshal example_esDocs example_conn example_tx example_start
      = (example_start\<lparr>logger := logger example_start @
            [(DebugLevel, ''data-object %s not in ES, indexing'', [S ''u1''])],
          stats := (stats example_start)\<lparr>
            dataobjectsAdded := dataobjectsAdded (stats example_start) + 1,
            processed := processed (stats example_start) + 1,
            dataobjects := dataobjects (stats example_start) + 1\<rparr>,
          seenEsDocs := [''u1'' \<mapsto> True, ''u2'' \<mapsto> True],
          indexer := (NewBulkIndexer example_conn 1000)\<lparr>buffer := [index_u1]\<rparr>\<rparr>, Some bad_json)"
    using example_dataobjects [of "logger example_start" "stats example_start"]
    by (simp add: example_start_def index_u1_def)
  have ep: "processPhases example_unmarshal example_order example_esDocs example_esDocTypes
      example_conn example_tx example_start =
        (example_start\<lparr>logger := logger example_start @
            [(DebugLevel, ''data-object %s not in ES, indexing'', [S ''u1''])],
          stats := (stats example_start)\<lparr>
            dataobjectsAdded := dataobjectsAdded (stats example_start) + 1,
            processed := processed (stats example_start) + 1,
            dataobjects := dataobjects (stats example_start) + 1\<rparr>,
          seenEsDocs := [''u1'' \<mapsto> True, ''u2'' \<mapsto> True],
          indexer := (NewBulkIndexer example_conn 1000)\<lparr>buffer := [index_u1]\<rparr>\<rparr>, Some bad_json)"
    by (simp add: processPhases_def ed)
  have x: "returned (ReindexPrefix 10 example_unmarshal example_order example_db example_conn ''u'')
        = Some bad_json \<and>
      map_option attempts (final_indexer
        (ReindexPrefix 10 example_unmarshal example_order example_db example_conn ''u''))
        = Some [([index_u1], None)]"
    using bulk_flush_discipline [where maxInPrefix = 10 and um = example_unmarshal
      and db = example_db and conn = example_conn and prefix = "''u''" and tx = example_tx
      and esDocs = example_esDocs and esDocTypes = example_esDocTypes and start = example_start
      and range_keys = example_order and e = "Some bad_json"
      and final = "fst (processPhases example_unmarshal example_order example_esDocs
          example_esDocTypes example_conn example_tx example_start)"]
      example_prerequisites
    by (simp add: ep example_Flush NewBulkIndexer_fields)
  from q a1 a2 x show ?thesis by simp
qed

end
